theory Spec2Isabelle
  imports Main "HOL-Library.List_Lexorder" "HOL-Library.Char_ord" "HOL-Library.Multiset"
begin

section \<open>Strings\<close>

text \<open>
  JavaScript strings are modelled as \<^typ>\<open>string\<close> (lists of characters); the model is
  exact for ASCII text.  \<open>s.startsWith(p)\<close>, \<open>s.includes(p)\<close>, \<open>s.split("\n")\<close> and
  \<open>s.trim()\<close> are the usual operations.
\<close>

definition startsWith :: "string \<Rightarrow> string \<Rightarrow> bool" where
  "startsWith s p \<longleftrightarrow> take (length p) s = p"

fun includesStr :: "string \<Rightarrow> string \<Rightarrow> bool" where
  "includesStr [] p = (p = [])"
| "includesStr (c # cs) p = (startsWith (c # cs) p \<or> includesStr cs p)"

fun splitOn :: "char \<Rightarrow> string \<Rightarrow> string list" where
  "splitOn sep [] = [[]]"
| "splitOn sep (c # cs) =
     (if c = sep then [] # splitOn sep cs
      else (case splitOn sep cs of
              [] \<Rightarrow> [[c]]
            | seg # segs \<Rightarrow> (c # seg) # segs))"

definition isWhiteSpace :: "char \<Rightarrow> bool" where
  "isWhiteSpace c \<longleftrightarrow> c \<in> {CHR '' '', CHR 0x09, CHR 0x0A, CHR 0x0B, CHR 0x0C, CHR 0x0D}"

definition trim :: "string \<Rightarrow> string" where
  "trim s = rev (dropWhile isWhiteSpace (rev (dropWhile isWhiteSpace s)))"

section \<open>The path library (POSIX flavour of the Deno standard library)\<close>

text \<open>
  \<open>resolve\<close>, \<open>dirname\<close>, \<open>join\<close> and \<open>relative\<close> are imported by the resolver from
  \<open>std/path\<close>.  They are purely lexical.  \<open>normalizeString\<close> drops empty and \<open>.\<close>
  segments and lets a \<open>..\<close> segment cancel the segment before it; above the root a
  \<open>..\<close> is kept only when \<open>allowAboveRoot\<close> holds.
\<close>

definition isPosixPathSeparator :: "char \<Rightarrow> bool" where
  "isPosixPathSeparator c \<longleftrightarrow> c = CHR ''/''"

fun joinSegments :: "string list \<Rightarrow> string" where
  "joinSegments [] = []"
| "joinSegments [seg] = seg"
| "joinSegments (seg # seg' # segs) = seg @ ''/'' @ joinSegments (seg' # segs)"

fun normalizeSegments :: "bool \<Rightarrow> string list \<Rightarrow> string list \<Rightarrow> string list" where
  "normalizeSegments allowAboveRoot res [] = res"
| "normalizeSegments allowAboveRoot res (seg # segs) =
     (if seg = [] \<or> seg = ''.'' then normalizeSegments allowAboveRoot res segs
      else if seg = ''..'' then
        (if res \<noteq> [] \<and> last res \<noteq> ''..''
           then normalizeSegments allowAboveRoot (butlast res) segs
         else if allowAboveRoot
           then normalizeSegments allowAboveRoot (res @ [''..'']) segs
         else normalizeSegments allowAboveRoot res segs)
      else normalizeSegments allowAboveRoot (res @ [seg]) segs)"

definition normalizeString :: "string \<Rightarrow> bool \<Rightarrow> string" where
  "normalizeString path allowAboveRoot =
     joinSegments (normalizeSegments allowAboveRoot [] (splitOn CHR ''/'' path))"

text \<open>
  \<open>resolve(...pathSegments)\<close> walks the arguments from the last to the first, and on to
  the current working directory, until the accumulated path is absolute; empty arguments
  are skipped.  \<open>resolveCollect\<close> receives the arguments in that order.
\<close>

fun resolveCollect :: "string list \<Rightarrow> string \<Rightarrow> string \<times> bool" where
  "resolveCollect [] resolvedPath = (resolvedPath, False)"
| "resolveCollect (path # rest) resolvedPath =
     (if path = [] then resolveCollect rest resolvedPath
      else if isPosixPathSeparator (hd path) then (path @ ''/'' @ resolvedPath, True)
      else resolveCollect rest (path @ ''/'' @ resolvedPath))"

definition resolveFrom :: "string \<Rightarrow> string list \<Rightarrow> string" where
  "resolveFrom workingDir pathSegments =
     (let (resolvedPath, resolvedAbsolute) = resolveCollect (rev pathSegments @ [workingDir]) [];
          normalized = normalizeString resolvedPath (\<not> resolvedAbsolute)
      in if resolvedAbsolute then (if normalized \<noteq> [] then ''/'' @ normalized else ''/'')
         else if normalized \<noteq> [] then normalized else ''.'')"

definition stripTrailingSeparators :: "string \<Rightarrow> string" where
  "stripTrailingSeparators segment =
     (if length segment \<le> 1 then segment
      else hd segment # rev (dropWhile isPosixPathSeparator (rev (tl segment))))"

text \<open>
  \<open>dirname\<close> scans from the end down to index 1: trailing separators are passed over,
  then the last component; the separator found before it ends the directory part.
\<close>

definition dirname :: "string \<Rightarrow> string" where
  "dirname path =
     (if path = [] then ''.''
      else
        (let afterTrailing = dropWhile isPosixPathSeparator (rev (tl path));
             beforeLast = dropWhile (\<lambda>c. \<not> isPosixPathSeparator c) afterTrailing
         in if beforeLast = []
            then (if isPosixPathSeparator (hd path) then ''/'' else ''.'')
            else stripTrailingSeparators (hd path # rev (tl beforeLast))))"

definition normalize :: "string \<Rightarrow> string" where
  "normalize path =
     (if path = [] then ''.''
      else
        (let isAbsolute = isPosixPathSeparator (hd path);
             trailingSeparator = isPosixPathSeparator (last path);
             p = normalizeString path (\<not> isAbsolute);
             p' = (if p = [] \<and> \<not> isAbsolute then ''.'' else p);
             p'' = (if p' \<noteq> [] \<and> trailingSeparator then p' @ ''/'' else p')
         in if isAbsolute then ''/'' @ p'' else p''))"

definition join :: "string list \<Rightarrow> string" where
  "join paths =
     (let joined = joinSegments (filter (\<lambda>p. p \<noteq> []) paths)
      in if joined = [] then ''.'' else normalize joined)"

fun dropCommon :: "string list \<Rightarrow> string list \<Rightarrow> string list \<times> string list" where
  "dropCommon (a # as) (b # bs) = (if a = b then dropCommon as bs else (a # as, b # bs))"
| "dropCommon as bs = (as, bs)"

definition segmentsOf :: "string \<Rightarrow> string list" where
  "segmentsOf p = filter (\<lambda>seg. seg \<noteq> []) (splitOn CHR ''/'' p)"

text \<open>
  \<open>relative(from, to)\<close>: both paths are resolved, their common leading segments are
  dropped, every remaining segment of \<open>from\<close> becomes \<open>..\<close>, and the remaining
  segments of \<open>to\<close> follow.
\<close>

definition relativeFrom :: "string \<Rightarrow> string \<Rightarrow> string \<Rightarrow> string" where
  "relativeFrom workingDir from to =
     (if from = to then []
      else
        (let f = resolveFrom workingDir [from]; t = resolveFrom workingDir [to]
         in if f = t then []
            else (let (fs, ts) = dropCommon (segmentsOf f) (segmentsOf t)
                  in joinSegments (replicate (length fs) ''..'' @ ts))))"

section \<open>The runtime: file system, permissions, configuration files\<close>

text \<open>
  Exceptions are values.  \<open>NotFound\<close> and \<open>PermissionDenied\<close> are the classes of
  \<open>Deno.errors\<close>, \<open>TypeError\<close> is what the path library throws for an argument that is
  not a string, \<open>GenericError\<close> is a plain \<open>Error\<close>.
\<close>

datatype error = NotFound | PermissionDenied | TypeError | GenericError

text \<open>Import map and tsconfig, as \<open>JSON.parse\<close> delivers them.  The entries of an object
  are listed in the order \<open>Object.entries\<close> enumerates them.  \<open>scopes\<close> is never read.\<close>

record ImportMap =
  importsMap :: "(string \<times> string) list option"

record CompilerOptions =
  baseUrl :: "string option"
  paths :: "(string \<times> string list) list option"

record TsConfig =
  compilerOptions :: "CompilerOptions option"

text \<open>
  The runtime is a snapshot: \<open>statSync\<close> answers \<open>Deno.statSync\<close> (the result is
  \<open>isDirectory\<close>), \<open>readPermission\<close> says whether read access to a path is granted to
  the process, \<open>readTextFile\<close> answers \<open>Deno.readTextFile\<close>, and the two parsers stand for
  \<open>JSON.parse\<close> on the content of each configuration file.
\<close>

record deno =
  cwd :: string
  statSync :: "string \<Rightarrow> error + bool"
  readPermission :: "string \<Rightarrow> bool"
  readTextFile :: "string \<Rightarrow> error + string"
  parseImportMapJson :: "string \<Rightarrow> error + ImportMap option"
  parseTsConfigJson :: "string \<Rightarrow> error + TsConfig option"

definition resolve :: "deno \<Rightarrow> string list \<Rightarrow> string" where
  "resolve env pathSegments = resolveFrom (cwd env) pathSegments"

definition relative :: "deno \<Rightarrow> string \<Rightarrow> string \<Rightarrow> string" where
  "relative env from to = relativeFrom (cwd env) from to"

text \<open>
  \<open>existsSync\<close> of \<open>std/fs\<close>: a successful stat means the path exists, \<open>NotFound\<close> means
  it does not, \<open>PermissionDenied\<close> raised by the file system (read access being granted)
  means it exists; every other error propagates.
\<close>

definition existsSync :: "deno \<Rightarrow> string \<Rightarrow> error + bool" where
  "existsSync env path =
     (case statSync env path of
        Inr _ \<Rightarrow> Inr True
      | Inl NotFound \<Rightarrow> Inr False
      | Inl PermissionDenied \<Rightarrow>
          (if readPermission env path then Inr True else Inl PermissionDenied)
      | Inl e \<Rightarrow> Inl e)"

section \<open>resolveImportPath\<close>

subsection \<open>Property lookup on the imports object\<close>

text \<open>
  \<open>importMap.imports[importPath]\<close> is a property read: it finds an own property, or else
  a property inherited from \<open>Object.prototype\<close>, whose values are functions
  (truthy, and not strings).  The runtime has removed \<open>__proto__\<close> from
  \<open>Object.prototype\<close>, so that name is not inherited.
\<close>

datatype property = Own string | Inherited | Undefined

definition objectPrototypeKeys :: "string list" where
  "objectPrototypeKeys =
     [''constructor'', ''__defineGetter__'', ''__defineSetter__'', ''hasOwnProperty'',
      ''__lookupGetter__'', ''__lookupSetter__'', ''isPrototypeOf'',
      ''propertyIsEnumerable'', ''toString'', ''valueOf'', ''toLocaleString'']"

definition getProperty :: "(string \<times> string) list \<Rightarrow> string \<Rightarrow> property" where
  "getProperty entries key =
     (case map_of entries key of
        Some v \<Rightarrow> Own v
      | None \<Rightarrow> if key \<in> set objectPrototypeKeys then Inherited else Undefined)"

subsection \<open>Import maps\<close>

fun prefixMatches :: "deno \<Rightarrow> string \<Rightarrow> string \<Rightarrow> (string \<times> string) list \<Rightarrow> string option" where
  "prefixMatches env importerPath importPath [] = None"
| "prefixMatches env importerPath importPath ((prefix, replacement) # entries) =
     (if startsWith importPath prefix
      then Some (resolve env [dirname importerPath, replacement,
                              drop (length prefix) importPath])
      else prefixMatches env importerPath importPath entries)"

text \<open>Each stage answers \<open>None\<close> when control falls through to the next one, and
  otherwise what the function returns or throws there.\<close>

definition handleImportMaps ::
  "deno \<Rightarrow> string \<Rightarrow> string \<Rightarrow> ImportMap option \<Rightarrow> (error + string option) option" where
  "handleImportMaps env importerPath importPath importMap =
     (case importMap of
        None \<Rightarrow> None
      | Some im \<Rightarrow>
         (case importsMap im of
            None \<Rightarrow> None
          | Some entries \<Rightarrow>
             (case getProperty entries importPath of
                Inherited \<Rightarrow> Some (Inl TypeError)
              | Own v \<Rightarrow>
                  if v \<noteq> [] then Some (Inr (Some (resolve env [dirname importerPath, v])))
                  else map_option (\<lambda>p. Inr (Some p))
                         (prefixMatches env importerPath importPath entries)
              | Undefined \<Rightarrow>
                  map_option (\<lambda>p. Inr (Some p))
                    (prefixMatches env importerPath importPath entries))))"

subsection \<open>tsconfig paths\<close>

text \<open>
  The pattern is turned into the source of a regular expression: first every \<open>*\<close>
  becomes \<open>(.*)\<close>, then every character of the class \<open>[-\/\\^$*+?.()|[\]{}]\<close> is
  prefixed with a backslash, and the result is put between \<open>^\<close> and \<open>$\<close>.
\<close>

definition backslash :: char where
  "backslash = CHR 0x5C"

definition regexSpecialChars :: "char list" where
  "regexSpecialChars =
     [CHR ''-'', CHR ''/'', CHR 0x5C, CHR ''^'', CHR ''$'', CHR ''*'', CHR ''+'', CHR ''?'',
      CHR ''.'', CHR ''('', CHR '')'', CHR ''|'', CHR ''['', CHR '']'', CHR ''{'', CHR ''}'']"

definition replaceWildcards :: "string \<Rightarrow> string" where
  "replaceWildcards pattern =
     concat (map (\<lambda>c. if c = CHR ''*'' then ''(.*)'' else [c]) pattern)"

definition escapeSpecials :: "string \<Rightarrow> string" where
  "escapeSpecials s =
     concat (map (\<lambda>c. if c \<in> set regexSpecialChars then [backslash, c] else [c]) s)"

definition regexSource :: "string \<Rightarrow> string" where
  "regexSource pattern = ''^'' @ escapeSpecials (replaceWildcards pattern) @ ''$''"

text \<open>
  The regular expressions that can arise are sequences of ordinary characters and
  escaped special characters between the two anchors.  Such an expression has no
  capture group and matches exactly one string, which \<open>literalOfEscaped\<close> reads off;
  \<open>None\<close> marks a source outside this fragment.  The match array of a successful match
  then holds the whole match only.
\<close>

fun literalOfEscaped :: "string \<Rightarrow> string option" where
  "literalOfEscaped [] = Some []"
| "literalOfEscaped [c] = (if c \<in> set regexSpecialChars then None else Some [c])"
| "literalOfEscaped (c # d # ds) =
     (if c = backslash
      then (if d \<in> set regexSpecialChars then map_option ((#) d) (literalOfEscaped ds)
            else None)
      else if c \<in> set regexSpecialChars then None
      else map_option ((#) c) (literalOfEscaped (d # ds)))"

definition regExpMatch :: "string \<Rightarrow> string \<Rightarrow> string list option option" where
  "regExpMatch source subject =
     (if 2 \<le> length source \<and> hd source = CHR ''^'' \<and> last source = CHR ''$''
      then (case literalOfEscaped (butlast (tl source)) of
              None \<Rightarrow> None
            | Some literal \<Rightarrow> Some (if subject = literal then Some [subject] else None))
      else None)"

definition replaceAll :: "char \<Rightarrow> string \<Rightarrow> string \<Rightarrow> string" where
  "replaceAll c by s = concat (map (\<lambda>x. if x = c then by else [x]) s)"

fun matchPaths ::
  "deno \<Rightarrow> string \<Rightarrow> string \<Rightarrow> string \<Rightarrow> (string \<times> string list) list \<Rightarrow> string option" where
  "matchPaths env importerPath importPath base [] = None"
| "matchPaths env importerPath importPath base ((pattern, replacements) # entries) =
     (case regExpMatch (regexSource pattern) importPath of
        Some (Some match) \<Rightarrow>
          (if replacements \<noteq> []
           then (let replacement = hd replacements;
                     replacement' = (if 1 < length match
                                     then replaceAll CHR ''*'' (match ! 1) replacement
                                     else replacement)
                 in Some (resolve env [dirname importerPath, base, replacement']))
           else matchPaths env importerPath importPath base entries)
      | _ \<Rightarrow> matchPaths env importerPath importPath base entries)"

definition handleTsconfigPaths ::
  "deno \<Rightarrow> string \<Rightarrow> string \<Rightarrow> TsConfig option \<Rightarrow> (error + string option) option" where
  "handleTsconfigPaths env importerPath importPath tsConfig =
     (case tsConfig of
        None \<Rightarrow> None
      | Some ts \<Rightarrow>
         (case compilerOptions ts of
            None \<Rightarrow> None
          | Some co \<Rightarrow>
             (case (paths co, baseUrl co) of
                (Some entries, Some base) \<Rightarrow>
                  (if base \<noteq> []
                   then map_option (\<lambda>p. Inr (Some p))
                          (matchPaths env importerPath importPath base entries)
                   else None)
              | _ \<Rightarrow> None)))"

subsection \<open>Relative and absolute paths\<close>

definition extensions :: "string list" where
  "extensions = [''.ts'', ''.tsx'', ''.js'', ''.jsx'', ''.mjs'', ''.cjs'']"

text \<open>
  \<open>/\.[^/.]+$/\<close>: a dot followed, up to the end of the string, by at least one
  character, none of them a slash or a dot.  Only the last dot of the string can start
  a match.
\<close>

definition extensionTail :: "string \<Rightarrow> string" where
  "extensionTail s = takeWhile (\<lambda>c. c \<noteq> CHR ''/'' \<and> c \<noteq> CHR ''.'') (rev s)"

definition hasExtension :: "string \<Rightarrow> bool" where
  "hasExtension s \<longleftrightarrow>
     extensionTail s \<noteq> [] \<and> length (extensionTail s) < length s \<and>
     rev s ! length (extensionTail s) = CHR ''.''"

definition stripExtension :: "string \<Rightarrow> string" where
  "stripExtension s =
     (if hasExtension s then rev (drop (Suc (length (extensionTail s))) (rev s)) else s)"

fun probeExtensions :: "deno \<Rightarrow> string \<Rightarrow> string list \<Rightarrow> error + string option" where
  "probeExtensions env base [] = Inr None"
| "probeExtensions env base (ext # exts) =
     (case existsSync env (base @ ext) of
        Inl e \<Rightarrow> Inl e
      | Inr found \<Rightarrow> if found then Inr (Some (base @ ext))
                    else probeExtensions env base exts)"

fun probeIndex :: "deno \<Rightarrow> string \<Rightarrow> string list \<Rightarrow> error + string option" where
  "probeIndex env resolved [] = Inr None"
| "probeIndex env resolved (ext # exts) =
     (case existsSync env (join [resolved, ''index'' @ ext]) of
        Inl e \<Rightarrow> Inl e
      | Inr found \<Rightarrow> if found then Inr (Some (join [resolved, ''index'' @ ext]))
                    else probeIndex env resolved exts)"

text \<open>The inner \<open>try\<close> block: whatever is thrown inside it is swallowed.\<close>

definition lookForIndex :: "deno \<Rightarrow> string \<Rightarrow> string option" where
  "lookForIndex env resolved =
     (case statSync env resolved of
        Inl _ \<Rightarrow> None
      | Inr isDirectory \<Rightarrow>
          if isDirectory
          then (case probeIndex env resolved extensions of Inl _ \<Rightarrow> None | Inr r \<Rightarrow> r)
          else None)"

definition handleRelativePaths :: "deno \<Rightarrow> string \<Rightarrow> string \<Rightarrow> error + string option" where
  "handleRelativePaths env importerPath importPath =
     (let resolved = resolve env [dirname importerPath, importPath]
      in case existsSync env resolved of
           Inl e \<Rightarrow> Inl e
         | Inr found \<Rightarrow>
            if found then Inr (Some resolved)
            else
              (let base = (if hasExtension resolved then stripExtension resolved
                           else resolved)
               in case lookForIndex env resolved of
                    Some indexPath \<Rightarrow> Inr (Some indexPath)
                  | None \<Rightarrow>
                     (case probeExtensions env base extensions of
                        Inl e \<Rightarrow> Inl e
                      | Inr (Some withExt) \<Rightarrow> Inr (Some withExt)
                      | Inr None \<Rightarrow>
                         if \<not> hasExtension resolved
                         then (case existsSync env resolved of
                                 Inl e \<Rightarrow> Inl e
                               | Inr _ \<Rightarrow> Inr (Some resolved))
                         else Inr (Some resolved))))"

definition handleAbsolutePaths :: "deno \<Rightarrow> string \<Rightarrow> error + string option" where
  "handleAbsolutePaths env importPath =
     (case existsSync env importPath of
        Inl e \<Rightarrow> Inl e
      | Inr found \<Rightarrow>
         if found then Inr (Some importPath)
         else
           (let base = (if hasExtension importPath then stripExtension importPath
                        else importPath)
            in probeExtensions env base extensions))"

subsection \<open>The function\<close>

definition resolveImportPathTry ::
  "deno \<Rightarrow> string \<Rightarrow> string \<Rightarrow> ImportMap option \<Rightarrow> TsConfig option \<Rightarrow> error + string option" where
  "resolveImportPathTry env importerPath importPath importMap tsConfig =
     (case handleImportMaps env importerPath importPath importMap of
        Some outcome \<Rightarrow> outcome
      | None \<Rightarrow>
         (case handleTsconfigPaths env importerPath importPath tsConfig of
            Some outcome \<Rightarrow> outcome
          | None \<Rightarrow>
             if startsWith importPath ''./'' \<or> startsWith importPath ''../''
               then handleRelativePaths env importerPath importPath
             else if startsWith importPath ''/''
               then handleAbsolutePaths env importPath
             else Inr None))"

text \<open>What is written to the console.\<close>

datatype diagnostic =
    WarnImportMap
  | WarnTsConfig
  | WarnNonExistent string
  | WarnSkipping string
  | ErrorProcessing string error
  | ErrorResolving string string error

text \<open>The \<open>catch\<close> of the outer \<open>try\<close>: the error is printed and \<open>null\<close> is returned.\<close>

definition resolveImportPathLog ::
  "deno \<Rightarrow> string \<Rightarrow> string \<Rightarrow> ImportMap option \<Rightarrow> TsConfig option
     \<Rightarrow> string option \<times> diagnostic list" where
  "resolveImportPathLog env importerPath importPath importMap tsConfig =
     (case resolveImportPathTry env importerPath importPath importMap tsConfig of
        Inr result \<Rightarrow> (result, [])
      | Inl e \<Rightarrow> (None, [ErrorResolving importPath importerPath e]))"

definition resolveImportPath ::
  "deno \<Rightarrow> string \<Rightarrow> string \<Rightarrow> ImportMap option \<Rightarrow> TsConfig option \<Rightarrow> string option" where
  "resolveImportPath env importerPath importPath importMap tsConfig =
     fst (resolveImportPathLog env importerPath importPath importMap tsConfig)"

section \<open>parseImports\<close>

subsection \<open>Regular expressions\<close>

text \<open>
  The import patterns are regular expressions over literals, character classes, the
  dot, sequence, alternation, the greedy and the lazy star, the option and one capture
  group.  Matching is the backtracking search of JavaScript: \<open>rx r\<close> lists, in the order
  the search tries them, the states a match of \<open>r\<close> can end in.  A state is the text still
  to be read and the text captured by group 1.
\<close>

datatype charClass = CChar char | CRange char char | CSpace | CWord

datatype regex =
    Lit string
  | Cls bool "charClass list"
  | Dot
  | Seq regex regex
  | Alt regex regex
  | Star regex
  | LazyStar regex
  | Opt regex
  | Grp regex

definition isWordChar :: "char \<Rightarrow> bool" where
  "isWordChar c \<longleftrightarrow>
     (CHR ''a'' \<le> c \<and> c \<le> CHR ''z'') \<or> (CHR ''A'' \<le> c \<and> c \<le> CHR ''Z'') \<or>
     (CHR ''0'' \<le> c \<and> c \<le> CHR ''9'') \<or> c = CHR ''_''"

fun inClass :: "char \<Rightarrow> charClass \<Rightarrow> bool" where
  "inClass c (CChar d) = (c = d)"
| "inClass c (CRange lo hi) = (lo \<le> c \<and> c \<le> hi)"
| "inClass c CSpace = isWhiteSpace c"
| "inClass c CWord = isWordChar c"

definition isLineTerminator :: "char \<Rightarrow> bool" where
  "isLineTerminator c \<longleftrightarrow> c = CHR 0x0A \<or> c = CHR 0x0D"

type_synonym matchState = "string \<times> string"

text \<open>An iteration of a star must consume text; the bound is the length of the text
  left, which no run of consuming iterations exceeds.\<close>

fun greedyStar :: "(matchState \<Rightarrow> matchState list) \<Rightarrow> nat \<Rightarrow> matchState \<Rightarrow> matchState list" where
  "greedyStar step 0 st = [st]"
| "greedyStar step (Suc n) st =
     concat (map (greedyStar step n)
               (filter (\<lambda>st'. length (fst st') < length (fst st)) (step st))) @ [st]"

fun lazyStar :: "(matchState \<Rightarrow> matchState list) \<Rightarrow> nat \<Rightarrow> matchState \<Rightarrow> matchState list" where
  "lazyStar step 0 st = [st]"
| "lazyStar step (Suc n) st =
     st # concat (map (lazyStar step n)
                    (filter (\<lambda>st'. length (fst st') < length (fst st)) (step st)))"

fun rx :: "regex \<Rightarrow> matchState \<Rightarrow> matchState list" where
  "rx (Lit l) st = (if startsWith (fst st) l then [(drop (length l) (fst st), snd st)] else [])"
| "rx (Cls negated cs) st =
     (case fst st of
        [] \<Rightarrow> []
      | c # rest \<Rightarrow> if (\<exists>k \<in> set cs. inClass c k) \<noteq> negated then [(rest, snd st)] else [])"
| "rx Dot st =
     (case fst st of
        [] \<Rightarrow> []
      | c # rest \<Rightarrow> if isLineTerminator c then [] else [(rest, snd st)])"
| "rx (Seq a b) st = concat (map (rx b) (rx a st))"
| "rx (Alt a b) st = rx a st @ rx b st"
| "rx (Star a) st = greedyStar (rx a) (length (fst st)) st"
| "rx (LazyStar a) st = lazyStar (rx a) (length (fst st)) st"
| "rx (Opt a) st = rx a st @ [st]"
| "rx (Grp a) st =
     map (\<lambda>st'. (fst st', take (length (fst st) - length (fst st')) (fst st))) (rx a st)"

text \<open>\<open>line.match(pattern)[1]\<close> for a pattern starting with \<open>^\<close>, and for one that may
  match anywhere in the line (the leftmost match wins).\<close>

definition matchAtStart :: "regex \<Rightarrow> string \<Rightarrow> string option" where
  "matchAtStart r s = (case rx r (s, []) of [] \<Rightarrow> None | st # _ \<Rightarrow> Some (snd st))"

fun matchAnywhere :: "regex \<Rightarrow> string \<Rightarrow> string option" where
  "matchAnywhere r [] = matchAtStart r []"
| "matchAnywhere r (c # cs) =
     (case matchAtStart r (c # cs) of
        Some captured \<Rightarrow> Some captured
      | None \<Rightarrow> matchAnywhere r cs)"

subsection \<open>The patterns\<close>

definition seqs :: "regex list \<Rightarrow> regex" where
  "seqs rs = foldr Seq rs (Lit [])"

definition oneOrMore :: "regex \<Rightarrow> regex" where
  "oneOrMore r = Seq r (Star r)"

definition spaces :: regex where
  "spaces = Star (Cls False [CSpace])"

definition spaces1 :: regex where
  "spaces1 = oneOrMore (Cls False [CSpace])"

definition identifierRx :: regex where
  "identifierRx = oneOrMore (Cls False [CWord, CChar CHR ''$''])"

definition braces :: regex where
  "braces = seqs [Lit ''{'', Star (Cls True [CChar CHR ''}'']), Lit ''}'']"

definition quoteRx :: regex where
  "quoteRx = Cls False [CChar CHR 0x22, CChar CHR 0x27]"

text \<open>\<open>["'](.*?(?:\.(?:js|jsx|ts|tsx|mjs|cjs))?)["']\<close>, the part all patterns share.\<close>

definition extensionAlternatives :: regex where
  "extensionAlternatives =
     Alt (Lit ''js'') (Alt (Lit ''jsx'') (Alt (Lit ''ts'')
       (Alt (Lit ''tsx'') (Alt (Lit ''mjs'') (Lit ''cjs'')))))"

definition quotedModule :: regex where
  "quotedModule =
     seqs [quoteRx,
           Grp (Seq (LazyStar Dot) (Opt (Seq (Lit ''.'') extensionAlternatives))),
           quoteRx]"

definition namedImportPattern :: regex where
  "namedImportPattern =
     seqs [spaces, Lit ''import'', spaces1, braces, spaces1, Lit ''from'', spaces1,
           quotedModule, spaces, Lit '';'']"

definition es6ImportPatterns :: "regex list" where
  "es6ImportPatterns =
     [seqs [spaces, Lit ''import'', spaces1, identifierRx, spaces1, Lit ''from'', spaces1,
            quotedModule, spaces, Lit '';''],
      namedImportPattern,
      seqs [spaces, Lit ''import'', spaces1, Lit ''*'', spaces1, Lit ''as'', spaces1,
            identifierRx, spaces1, Lit ''from'', spaces1, quotedModule, spaces, Lit '';''],
      seqs [spaces, Lit ''import'', spaces1, quotedModule, spaces, Lit '';''],
      seqs [spaces, Lit ''import'', spaces1, identifierRx, Lit '','', spaces, braces, spaces1,
            Lit ''from'', spaces1, quotedModule, spaces, Lit '';''],
      seqs [spaces, Lit ''import'', spaces1, Lit ''type'', spaces1, braces, spaces1,
            Lit ''from'', spaces1, quotedModule, spaces, Lit '';'']]"

definition declarator :: regex where
  "declarator = Alt (Lit ''const'') (Alt (Lit ''let'') (Lit ''var''))"

definition cjsRequirePatterns :: "regex list" where
  "cjsRequirePatterns =
     [seqs [declarator, spaces1, identifierRx, spaces, Lit ''='', spaces, Lit ''require('',
            quotedModule, Lit '')''],
      seqs [declarator, spaces1, braces, spaces, Lit ''='', spaces, Lit ''require('',
            quotedModule, Lit '')''],
      seqs [declarator, spaces1, identifierRx, spaces, Lit ''='', spaces, Lit ''require('',
            quotedModule, Lit '')'', Lit ''.'', identifierRx],
      seqs [Lit ''require('', quotedModule, Lit '')''],
      seqs [Lit ''import'', spaces1, identifierRx, spaces, Lit ''='', spaces,
            Lit ''require('', quotedModule, Lit '')'']]"

definition dynamicImportPattern :: regex where
  "dynamicImportPattern = seqs [Lit ''import('', quotedModule, Lit '')'']"

subsection \<open>The scan of the lines\<close>

datatype importType = es6 | commonjs

record ImportStatement =
  type :: importType
  module :: string
  isDynamic :: bool
  stmtLineNumber :: nat

fun firstMatch :: "(regex \<Rightarrow> string \<Rightarrow> string option) \<Rightarrow> regex list \<Rightarrow> string \<Rightarrow> string option" where
  "firstMatch matcher [] line = None"
| "firstMatch matcher (pattern # patterns) line =
     (case matcher pattern line of
        Some captured \<Rightarrow> Some captured
      | None \<Rightarrow> firstMatch matcher patterns line)"

definition matchLine :: "string \<Rightarrow> nat \<Rightarrow> ImportStatement list" where
  "matchLine line lineNumber =
     (case firstMatch matchAtStart es6ImportPatterns line of
        Some m \<Rightarrow> [\<lparr>type = es6, module = m, isDynamic = False, stmtLineNumber = lineNumber\<rparr>]
      | None \<Rightarrow>
         (case firstMatch matchAnywhere cjsRequirePatterns line of
            Some m \<Rightarrow>
              [\<lparr>type = commonjs, module = m, isDynamic = False, stmtLineNumber = lineNumber\<rparr>]
          | None \<Rightarrow>
             (case matchAnywhere dynamicImportPattern line of
                Some m \<Rightarrow>
                  [\<lparr>type = es6, module = m, isDynamic = True, stmtLineNumber = lineNumber\<rparr>]
              | None \<Rightarrow> [])))"

text \<open>The loop over the lines; \<open>i\<close> is the index of the line at the head,
  \<open>multiLineImport\<close> and \<open>multiLineImportStartLine\<close> are the two loop variables.\<close>

fun scanLines :: "nat \<Rightarrow> string \<Rightarrow> nat \<Rightarrow> string list \<Rightarrow> ImportStatement list" where
  "scanLines i multiLineImport multiLineImportStartLine [] = []"
| "scanLines i multiLineImport multiLineImportStartLine (line # lines) =
     (let lineNumber = i + 1 in
      if trim line = [] \<or> startsWith (trim line) ''//''
        then scanLines (i + 1) multiLineImport multiLineImportStartLine lines
      else if includesStr line ''import'' \<and> includesStr line ''{'' \<and> \<not> includesStr line ''}''
        then scanLines (i + 1) line lineNumber lines
      else if multiLineImport \<noteq> [] \<and> \<not> includesStr line ''from''
        then scanLines (i + 1) (multiLineImport @ '' '' @ trim line)
               multiLineImportStartLine lines
      else if multiLineImport \<noteq> [] \<and> includesStr line ''from''
        then (case matchAtStart namedImportPattern (multiLineImport @ '' '' @ trim line) of
                Some m \<Rightarrow>
                  \<lparr>type = es6, module = m, isDynamic = False,
                   stmtLineNumber = multiLineImportStartLine\<rparr>
                  # scanLines (i + 1) [] multiLineImportStartLine lines
              | None \<Rightarrow> scanLines (i + 1) [] multiLineImportStartLine lines)
      else matchLine line lineNumber
           @ scanLines (i + 1) multiLineImport multiLineImportStartLine lines)"

text \<open>
  The whole function.  The \<open>catch\<close> rethrows \<open>NotFound\<close> and wraps every other error
  into a plain \<open>Error\<close>.
\<close>

definition parseImportsTry :: "deno \<Rightarrow> string \<Rightarrow> error + ImportStatement list" where
  "parseImportsTry env filePath =
     (case existsSync env filePath of
        Inl e \<Rightarrow> Inl e
      | Inr found \<Rightarrow>
         if \<not> found then Inl NotFound
         else (case readTextFile env filePath of
                 Inl e \<Rightarrow> Inl e
               | Inr content \<Rightarrow> Inr (scanLines 0 [] 0 (splitOn CHR 0x0A content))))"

definition parseImports :: "deno \<Rightarrow> string \<Rightarrow> error + ImportStatement list" where
  "parseImports env filePath =
     (case parseImportsTry env filePath of
        Inl NotFound \<Rightarrow> Inl NotFound
      | Inl _ \<Rightarrow> Inl GenericError
      | Inr imports \<Rightarrow> Inr imports)"

section \<open>Loading the configuration\<close>

definition loadImportMap :: "deno \<Rightarrow> string \<Rightarrow> error + ImportMap option" where
  "loadImportMap env rootPath =
     (let importMapPath = join [rootPath, ''import_map.json'']
      in case existsSync env importMapPath of
           Inl e \<Rightarrow> Inl e
         | Inr found \<Rightarrow>
            if found
            then (case readTextFile env importMapPath of
                    Inl _ \<Rightarrow> Inl GenericError
                  | Inr content \<Rightarrow>
                     (case parseImportMapJson env content of
                        Inl _ \<Rightarrow> Inl GenericError
                      | Inr importMap \<Rightarrow> Inr importMap))
            else Inr None)"

definition loadTsConfig :: "deno \<Rightarrow> string \<Rightarrow> error + TsConfig option" where
  "loadTsConfig env rootPath =
     (let tsConfigPath = join [rootPath, ''tsconfig.json'']
      in case existsSync env tsConfigPath of
           Inl e \<Rightarrow> Inl e
         | Inr found \<Rightarrow>
            if found
            then (case readTextFile env tsConfigPath of
                    Inl _ \<Rightarrow> Inl GenericError
                  | Inr content \<Rightarrow>
                     (case parseTsConfigJson env content of
                        Inl _ \<Rightarrow> Inl GenericError
                      | Inr tsConfig \<Rightarrow> Inr tsConfig))
            else Inr None)"

text \<open>Both matchers begin by loading the two files; a failure leaves the variable
  \<open>null\<close> and prints a warning.\<close>

definition loadedImportMap :: "deno \<Rightarrow> string \<Rightarrow> ImportMap option" where
  "loadedImportMap env rootPath =
     (case loadImportMap env rootPath of Inl _ \<Rightarrow> None | Inr importMap \<Rightarrow> importMap)"

definition loadedTsConfig :: "deno \<Rightarrow> string \<Rightarrow> TsConfig option" where
  "loadedTsConfig env rootPath =
     (case loadTsConfig env rootPath of Inl _ \<Rightarrow> None | Inr tsConfig \<Rightarrow> tsConfig)"

definition loadWarnings :: "deno \<Rightarrow> string \<Rightarrow> diagnostic list" where
  "loadWarnings env rootPath =
     (case loadImportMap env rootPath of Inl _ \<Rightarrow> [WarnImportMap] | Inr _ \<Rightarrow> [])
     @ (case loadTsConfig env rootPath of Inl _ \<Rightarrow> [WarnTsConfig] | Inr _ \<Rightarrow> [])"

section \<open>findImporters\<close>

record Importer =
  sourceFile :: string
  importPath :: string
  lineNumber :: nat

record ResolvedImport = Importer +
  resolvedPath :: string

text \<open>
  The target: its normalized path and whether it is a directory.  A target that is not
  a directory and does not exist is looked for under the six extensions; when none of
  them exists the function throws \<open>NotFound\<close>.
\<close>

definition normalizeTarget :: "deno \<Rightarrow> string \<Rightarrow> error + string \<times> bool" where
  "normalizeTarget env targetFilePath =
     (let normalizedTargetPath = resolve env [targetFilePath];
          isTargetDirectory =
            (case statSync env normalizedTargetPath of Inl _ \<Rightarrow> False | Inr d \<Rightarrow> d)
      in if isTargetDirectory then Inr (normalizedTargetPath, True)
         else
           (case existsSync env normalizedTargetPath of
              Inl e \<Rightarrow> Inl e
            | Inr found \<Rightarrow>
               if found then Inr (normalizedTargetPath, False)
               else
                 (let base = (if hasExtension normalizedTargetPath
                              then stripExtension normalizedTargetPath
                              else normalizedTargetPath)
                  in case probeExtensions env base extensions of
                       Inl e \<Rightarrow> Inl e
                     | Inr (Some withExt) \<Rightarrow> Inr (withExt, False)
                     | Inr None \<Rightarrow> Inl NotFound)))"

text \<open>Does a resolved path hit the target?\<close>

definition hitsTarget :: "deno \<Rightarrow> string \<Rightarrow> bool \<Rightarrow> string \<Rightarrow> bool" where
  "hitsTarget env normalizedTargetPath isTargetDirectory path =
     (if isTargetDirectory then startsWith (resolve env [path]) normalizedTargetPath
      else resolve env [path] = normalizedTargetPath)"

text \<open>The inner loop over the import statements of one file: what is pushed and what
  is printed.\<close>

fun checkImports ::
  "deno \<Rightarrow> ImportMap option \<Rightarrow> TsConfig option \<Rightarrow> string \<Rightarrow> bool \<Rightarrow> string
     \<Rightarrow> ImportStatement list \<Rightarrow> ResolvedImport list \<times> diagnostic list" where
  "checkImports env importMap tsConfig normalizedTargetPath isTargetDirectory filePath [] =
     ([], [])"
| "checkImports env importMap tsConfig normalizedTargetPath isTargetDirectory filePath
     (imp # imports) =
     (let (found, printed) =
            checkImports env importMap tsConfig normalizedTargetPath isTargetDirectory
              filePath imports
      in if isDynamic imp then (found, printed)
         else
           (let (resolved, log) =
                  resolveImportPathLog env filePath (module imp) importMap tsConfig
            in case resolved of
                 None \<Rightarrow> (found, log @ printed)
               | Some path \<Rightarrow>
                  if path \<noteq> [] \<and> hitsTarget env normalizedTargetPath isTargetDirectory path
                  then (\<lparr>sourceFile = filePath, importPath = module imp,
                         lineNumber = stmtLineNumber imp, resolvedPath = path\<rparr> # found,
                        log @ printed)
                  else (found, log @ printed)))"

text \<open>
  The body of the \<open>try\<close> in the loop over the files.  Everything that can throw does so
  before the first import is looked at: \<open>resolveImportPath\<close> catches its own errors.
\<close>

definition processFileTry ::
  "deno \<Rightarrow> ImportMap option \<Rightarrow> TsConfig option \<Rightarrow> string \<Rightarrow> bool \<Rightarrow> string
     \<Rightarrow> error + ResolvedImport list \<times> diagnostic list" where
  "processFileTry env importMap tsConfig normalizedTargetPath isTargetDirectory filePath =
     (if hitsTarget env normalizedTargetPath isTargetDirectory filePath then Inr ([], [])
      else
        (case existsSync env filePath of
           Inl e \<Rightarrow> Inl e
         | Inr found \<Rightarrow>
            if \<not> found then Inr ([], [WarnNonExistent filePath])
            else
              (case parseImports env filePath of
                 Inl e \<Rightarrow> Inl e
               | Inr imports \<Rightarrow>
                   Inr (checkImports env importMap tsConfig normalizedTargetPath
                          isTargetDirectory filePath imports))))"

text \<open>The \<open>catch\<close> of that \<open>try\<close>: a warning for \<open>NotFound\<close>, an error message for
  anything else; in both cases the loop goes on with the next file.\<close>

definition processFile ::
  "deno \<Rightarrow> ImportMap option \<Rightarrow> TsConfig option \<Rightarrow> string \<Rightarrow> bool \<Rightarrow> string
     \<Rightarrow> ResolvedImport list \<times> diagnostic list" where
  "processFile env importMap tsConfig normalizedTargetPath isTargetDirectory filePath =
     (case processFileTry env importMap tsConfig normalizedTargetPath isTargetDirectory
             filePath of
        Inr outcome \<Rightarrow> outcome
      | Inl NotFound \<Rightarrow> ([], [WarnSkipping filePath])
      | Inl e \<Rightarrow> ([], [ErrorProcessing filePath e]))"

fun processFiles ::
  "deno \<Rightarrow> ImportMap option \<Rightarrow> TsConfig option \<Rightarrow> string \<Rightarrow> bool \<Rightarrow> string list
     \<Rightarrow> ResolvedImport list \<times> diagnostic list" where
  "processFiles env importMap tsConfig normalizedTargetPath isTargetDirectory [] = ([], [])"
| "processFiles env importMap tsConfig normalizedTargetPath isTargetDirectory
     (filePath # files) =
     (let (found, printed) =
            processFile env importMap tsConfig normalizedTargetPath isTargetDirectory filePath;
          (found', printed') =
            processFiles env importMap tsConfig normalizedTargetPath isTargetDirectory files
      in (found @ found', printed @ printed'))"

text \<open>The function: the value returned or thrown, and the console.\<close>

definition findImportersRun ::
  "deno \<Rightarrow> string \<Rightarrow> string list \<Rightarrow> string
     \<Rightarrow> (error + ResolvedImport list) \<times> diagnostic list" where
  "findImportersRun env targetFilePath files rootPath =
     (let importMap = loadedImportMap env rootPath;
          tsConfig = loadedTsConfig env rootPath;
          warnings = loadWarnings env rootPath
      in case normalizeTarget env targetFilePath of
           Inl e \<Rightarrow> (Inl e, warnings)
         | Inr (normalizedTargetPath, isTargetDirectory) \<Rightarrow>
            (let (importers, printed) =
                   processFiles env importMap tsConfig normalizedTargetPath
                     isTargetDirectory files
             in (Inr importers, warnings @ printed)))"

definition findImporters ::
  "deno \<Rightarrow> string \<Rightarrow> string list \<Rightarrow> string \<Rightarrow> error + ResolvedImport list" where
  "findImporters env targetFilePath files rootPath =
     fst (findImportersRun env targetFilePath files rootPath)"

section \<open>findDirectoryImporters\<close>

record ImportGroup =
  importedFile :: string
  importers :: "Importer list"

record DirectoryImporterResult =
  target :: string
  root :: string
  count :: nat
  groups :: "ImportGroup list"

text \<open>The target must be a directory: a file gives a plain \<open>Error\<close>, a missing path
  \<open>NotFound\<close>, and any other error of \<open>statSync\<close> is thrown on.\<close>

definition checkTargetDirectory :: "deno \<Rightarrow> string \<Rightarrow> error + string" where
  "checkTargetDirectory env targetDirectoryPath =
     (let normalizedTargetPath = resolve env [targetDirectoryPath]
      in case statSync env normalizedTargetPath of
           Inr isDirectory \<Rightarrow>
             if isDirectory then Inr normalizedTargetPath else Inl GenericError
         | Inl e \<Rightarrow> Inl e)"

text \<open>The inner loop: the matches of one file, each with the key of its group.\<close>

fun checkDirectoryImports ::
  "deno \<Rightarrow> ImportMap option \<Rightarrow> TsConfig option \<Rightarrow> string \<Rightarrow> string
     \<Rightarrow> ImportStatement list \<Rightarrow> (string \<times> Importer) list \<times> diagnostic list" where
  "checkDirectoryImports env importMap tsConfig normalizedTargetPath filePath [] = ([], [])"
| "checkDirectoryImports env importMap tsConfig normalizedTargetPath filePath
     (imp # imports) =
     (let (found, printed) =
            checkDirectoryImports env importMap tsConfig normalizedTargetPath filePath imports
      in if isDynamic imp then (found, printed)
         else
           (let (resolved, log) =
                  resolveImportPathLog env filePath (module imp) importMap tsConfig
            in case resolved of
                 None \<Rightarrow> (found, log @ printed)
               | Some path \<Rightarrow>
                  if path \<noteq> [] \<and> startsWith (resolve env [path]) normalizedTargetPath
                  then ((relative env normalizedTargetPath path,
                         \<lparr>sourceFile = filePath, importPath = module imp,
                          lineNumber = stmtLineNumber imp\<rparr>) # found,
                        log @ printed)
                  else (found, log @ printed)))"

definition processDirectoryFileTry ::
  "deno \<Rightarrow> ImportMap option \<Rightarrow> TsConfig option \<Rightarrow> string \<Rightarrow> string
     \<Rightarrow> error + (string \<times> Importer) list \<times> diagnostic list" where
  "processDirectoryFileTry env importMap tsConfig normalizedTargetPath filePath =
     (if startsWith (resolve env [filePath]) normalizedTargetPath then Inr ([], [])
      else
        (case existsSync env filePath of
           Inl e \<Rightarrow> Inl e
         | Inr found \<Rightarrow>
            if \<not> found then Inr ([], [WarnNonExistent filePath])
            else
              (case parseImports env filePath of
                 Inl e \<Rightarrow> Inl e
               | Inr imports \<Rightarrow>
                   Inr (checkDirectoryImports env importMap tsConfig normalizedTargetPath
                          filePath imports))))"

definition processDirectoryFile ::
  "deno \<Rightarrow> ImportMap option \<Rightarrow> TsConfig option \<Rightarrow> string \<Rightarrow> string
     \<Rightarrow> (string \<times> Importer) list \<times> diagnostic list" where
  "processDirectoryFile env importMap tsConfig normalizedTargetPath filePath =
     (case processDirectoryFileTry env importMap tsConfig normalizedTargetPath filePath of
        Inr outcome \<Rightarrow> outcome
      | Inl NotFound \<Rightarrow> ([], [WarnSkipping filePath])
      | Inl e \<Rightarrow> ([], [ErrorProcessing filePath e]))"

fun processDirectoryFiles ::
  "deno \<Rightarrow> ImportMap option \<Rightarrow> TsConfig option \<Rightarrow> string \<Rightarrow> string list
     \<Rightarrow> (string \<times> Importer) list \<times> diagnostic list" where
  "processDirectoryFiles env importMap tsConfig normalizedTargetPath [] = ([], [])"
| "processDirectoryFiles env importMap tsConfig normalizedTargetPath (filePath # files) =
     (let (found, printed) =
            processDirectoryFile env importMap tsConfig normalizedTargetPath filePath;
          (found', printed') =
            processDirectoryFiles env importMap tsConfig normalizedTargetPath files
      in (found @ found', printed @ printed'))"

text \<open>
  \<open>importGroups\<close> is a \<open>Map\<close>: it keeps its keys in the order of their first insertion.
  A match either opens a new group at the end or is pushed onto the list of its group.
\<close>

fun addImporter ::
  "string \<Rightarrow> Importer \<Rightarrow> (string \<times> Importer list) list \<Rightarrow> (string \<times> Importer list) list" where
  "addImporter key importer [] = [(key, [importer])]"
| "addImporter key importer ((key', importers') # entries) =
     (if key = key' then (key', importers' @ [importer]) # entries
      else (key', importers') # addImporter key importer entries)"

definition importGroupsOf :: "(string \<times> Importer) list \<Rightarrow> (string \<times> Importer list) list" where
  "importGroupsOf found = foldl (\<lambda>m (key, importer). addImporter key importer m) [] found"

text \<open>
  Both sorts compare with \<open>localeCompare\<close>, the collation of the runtime's locale.  It
  is a parameter here: \<open>collate\<close> sends a string to its collation key, and
  \<open>a.localeCompare(b)\<close> compares the keys of \<open>a\<close> and \<open>b\<close>.  \<open>Array.prototype.sort\<close> is
  stable, as \<^const>\<open>sort_key\<close> is.
\<close>

definition sortGroups ::
  "(string \<Rightarrow> 'k::linorder) \<Rightarrow> (string \<times> Importer list) list \<Rightarrow> ImportGroup list" where
  "sortGroups collate entries =
     map (\<lambda>g. g\<lparr>importers := sort_key (\<lambda>i. collate (sourceFile i)) (importers g)\<rparr>)
       (sort_key (\<lambda>g. collate (importedFile g))
          (map (\<lambda>(key, found). \<lparr>importedFile = key, importers = found\<rparr>) entries))"

definition findDirectoryImportersRun ::
  "(string \<Rightarrow> 'k::linorder) \<Rightarrow> deno \<Rightarrow> string \<Rightarrow> string list \<Rightarrow> string
     \<Rightarrow> (error + DirectoryImporterResult) \<times> diagnostic list" where
  "findDirectoryImportersRun collate env targetDirectoryPath files rootPath =
     (let importMap = loadedImportMap env rootPath;
          tsConfig = loadedTsConfig env rootPath;
          warnings = loadWarnings env rootPath
      in case checkTargetDirectory env targetDirectoryPath of
           Inl e \<Rightarrow> (Inl e, warnings)
         | Inr normalizedTargetPath \<Rightarrow>
            (let (found, printed) =
                   processDirectoryFiles env importMap tsConfig normalizedTargetPath files;
                 sorted = sortGroups collate (importGroupsOf found)
             in (Inr \<lparr>target = targetDirectoryPath, root = rootPath,
                      count = sum_list (map (\<lambda>g. length (importers g)) sorted),
                      groups = sorted\<rparr>,
                 warnings @ printed)))"

definition findDirectoryImporters ::
  "(string \<Rightarrow> 'k::linorder) \<Rightarrow> deno \<Rightarrow> string \<Rightarrow> string list \<Rightarrow> string
     \<Rightarrow> error + DirectoryImporterResult" where
  "findDirectoryImporters collate env targetDirectoryPath files rootPath =
     fst (findDirectoryImportersRun collate env targetDirectoryPath files rootPath)"

section \<open>An example tree\<close>

text \<open>
  A runtime built from a finite table of paths.  A path of the table is a directory, a
  file with its text, a file that cannot be read (\<open>Unreadable\<close>), a file that is gone by
  the time it is read (\<open>Vanished\<close>), or a path the process was not granted access to
  (\<open>Forbidden\<close>).  There are no configuration files in the examples.
\<close>

datatype node = Directory | File string | Unreadable | Vanished | Forbidden

definition runtimeOf :: "string \<Rightarrow> (string \<times> node) list \<Rightarrow> deno" where
  "runtimeOf workingDir nodes =
     \<lparr>cwd = workingDir,
      statSync = (\<lambda>path. case map_of nodes path of
                     None \<Rightarrow> Inl NotFound
                   | Some Directory \<Rightarrow> Inr True
                   | Some Forbidden \<Rightarrow> Inl PermissionDenied
                   | Some _ \<Rightarrow> Inr False),
      readPermission = (\<lambda>path. map_of nodes path \<noteq> Some Forbidden),
      readTextFile = (\<lambda>path. case map_of nodes path of
                     Some (File content) \<Rightarrow> Inr content
                   | Some Unreadable \<Rightarrow> Inl PermissionDenied
                   | Some Forbidden \<Rightarrow> Inl PermissionDenied
                   | Some Directory \<Rightarrow> Inl GenericError
                   | _ \<Rightarrow> Inl NotFound),
      parseImportMapJson = (\<lambda>content. Inl GenericError),
      parseTsConfigJson = (\<lambda>content. Inl GenericError)\<rparr>"

text \<open>The line \<open>import name from "specifier";\<close>.\<close>

definition importLine :: "string \<Rightarrow> string \<Rightarrow> string" where
  "importLine name specifier =
     ''import '' @ name @ '' from '' @ [CHR 0x22] @ specifier @ [CHR 0x22] @ '';''"

definition exampleTree :: "(string \<times> node) list" where
  "exampleTree =
     [(''/r'', Directory),
      (''/r/a.ts'', File (importLine ''x'' ''./foo-bar.ts'')),
      (''/r/b.ts'', File (importLine ''y'' ''./foo/y.ts'' @ [CHR 0x0A]
                          @ importLine ''x'' ''./foo/x.ts'')),
      (''/r/c.ts'', File (importLine ''x'' ''./foo/x'')),
      (''/r/foo'', Directory),
      (''/r/foo/x.ts'', File (importLine ''self'' ''./x.ts'')),
      (''/r/foo/y.ts'', File []),
      (''/r/foo-bar.ts'', File (importLine ''x'' ''./foo/x.ts'')),
      (''/r/lib'', Directory),
      (''/r/lib/index.ts'', File []),
      (''/r/unreadable.ts'', Unreadable),
      (''/r/gone.ts'', Vanished),
      (''/r/secret'', Forbidden)]"

definition example :: deno where
  "example = runtimeOf ''/w'' exampleTree"

text \<open>A tsconfig with one wildcard pattern, and import maps used below.\<close>

definition appPaths :: TsConfig where
  "appPaths =
     \<lparr>compilerOptions =
        Some \<lparr>baseUrl = Some ''.'', paths = Some [(''@app/*'', [''./src/*''])]\<rparr>\<rparr>"

definition buttonPaths :: TsConfig where
  "buttonPaths =
     \<lparr>compilerOptions =
        Some \<lparr>baseUrl = Some ''.'', paths = Some [(''button'', [''./other.tsx''])]\<rparr>\<rparr>"

definition buttonMap :: ImportMap where
  "buttonMap = \<lparr>importsMap = Some [(''button'', ''./button.tsx'')]\<rparr>"

definition emptyReplacementMap :: ImportMap where
  "emptyReplacementMap = \<lparr>importsMap = Some [(''a'', ''./x/''), (''ab'', [])]\<rparr>"

definition dotSlashMap :: ImportMap where
  "dotSlashMap = \<lparr>importsMap = Some [(''./'', ''./src/'')]\<rparr>"

text \<open>
  \<open>localeCompare\<close> is the collation of the runtime and is not spelled out here.  In the
  examples on the order of the groups \<open>exampleCollation\<close> stands for it: it gives no
  weight to the control character U+007F, as \<open>localeCompare\<close> does, and it orders the
  other characters of the paths of these examples (lower-case letters, the dot and the
  slash) as \<open>localeCompare\<close> does.
\<close>

definition exampleCollation :: "string \<Rightarrow> string" where
  "exampleCollation s = filter (\<lambda>c. c \<noteq> CHR 0x7F) s"

text \<open>A second tree: the directory \<open>/r/foo\<close> holds \<open>a.ts\<close> and a file whose name differs
  from it by the character U+007F only; \<open>/r/p.ts\<close> imports the first and \<open>/r/q.ts\<close> the
  second.\<close>

definition controlTree :: "(string \<times> node) list" where
  "controlTree =
     [(''/r'', Directory),
      (''/r/foo'', Directory),
      (''/r/foo/a.ts'', File []),
      (''/r/foo/a'' @ [CHR 0x7F] @ ''.ts'', File []),
      (''/r/p.ts'', File (importLine ''x'' ''./foo/a.ts'')),
      (''/r/q.ts'', File (importLine ''y'' (''./foo/a'' @ [CHR 0x7F] @ ''.ts'')))]"

definition controlExample :: deno where
  "controlExample = runtimeOf ''/w'' controlTree"

section \<open>Evaluating the example\<close>

lemmas path_defs = resolve_def resolveFrom_def normalizeString_def dirname_def
  isPosixPathSeparator_def stripTrailingSeparators_def join_def normalize_def
  relative_def relativeFrom_def segmentsOf_def startsWith_def

lemma example_cwd: "cwd example = ''/w''"
  by (simp add: example_def runtimeOf_def)

lemma example_statSync:
  "statSync example path =
     (case map_of exampleTree path of
        None \<Rightarrow> Inl NotFound
      | Some Directory \<Rightarrow> Inr True
      | Some Forbidden \<Rightarrow> Inl PermissionDenied
      | Some _ \<Rightarrow> Inr False)"
  by (simp add: example_def runtimeOf_def)

lemma example_readPermission:
  "readPermission example path \<longleftrightarrow> map_of exampleTree path \<noteq> Some Forbidden"
  by (simp add: example_def runtimeOf_def)

lemma example_readTextFile:
  "readTextFile example path =
     (case map_of exampleTree path of
        Some (File content) \<Rightarrow> Inr content
      | Some Unreadable \<Rightarrow> Inl PermissionDenied
      | Some Forbidden \<Rightarrow> Inl PermissionDenied
      | Some Directory \<Rightarrow> Inl GenericError
      | _ \<Rightarrow> Inl NotFound)"
  by (simp add: example_def runtimeOf_def)

lemmas example_simps = example_cwd example_statSync example_readPermission
  example_readTextFile exampleTree_def existsSync_def

section \<open>The bound of the stars\<close>

text \<open>The bound given to a star is never used up: every bound that is at least the
  length of the text left gives the same states.\<close>

lemma greedyStar_bound:
  "length (fst st) \<le> n \<Longrightarrow> length (fst st) \<le> m \<Longrightarrow>
   greedyStar step n st = greedyStar step m st"
proof (induction n arbitrary: m st)
  case 0
  then show ?case by (cases m) simp_all
next
  case (Suc n)
  show ?case
  proof (cases m)
    case 0
    with Suc.prems show ?thesis by simp
  next
    case (Suc m')
    have "greedyStar step n st' = greedyStar step m' st'"
      if "st' \<in> set (filter (\<lambda>st'. length (fst st') < length (fst st)) (step st))" for st'
      using that Suc.prems \<open>m = Suc m'\<close> by (intro Suc.IH) auto
    then have "map (greedyStar step n)
                 (filter (\<lambda>st'. length (fst st') < length (fst st)) (step st)) =
               map (greedyStar step m')
                 (filter (\<lambda>st'. length (fst st') < length (fst st)) (step st))"
      by (intro map_cong refl)
    then show ?thesis
      unfolding \<open>m = Suc m'\<close> by (simp only: greedyStar.simps)
  qed
qed

lemma lazyStar_bound:
  "length (fst st) \<le> n \<Longrightarrow> length (fst st) \<le> m \<Longrightarrow>
   lazyStar step n st = lazyStar step m st"
proof (induction n arbitrary: m st)
  case 0
  then show ?case by (cases m) simp_all
next
  case (Suc n)
  show ?case
  proof (cases m)
    case 0
    with Suc.prems show ?thesis by simp
  next
    case (Suc m')
    have "lazyStar step n st' = lazyStar step m' st'"
      if "st' \<in> set (filter (\<lambda>st'. length (fst st') < length (fst st)) (step st))" for st'
      using that Suc.prems \<open>m = Suc m'\<close> by (intro Suc.IH) auto
    then have "map (lazyStar step n)
                 (filter (\<lambda>st'. length (fst st') < length (fst st)) (step st)) =
               map (lazyStar step m')
                 (filter (\<lambda>st'. length (fst st') < length (fst st)) (step st))"
      by (intro map_cong refl)
    then show ?thesis
      unfolding \<open>m = Suc m'\<close> by (simp only: lazyStar.simps)
  qed
qed

lemma rx_Star_bound:
  "length (fst st) \<le> n \<Longrightarrow> rx (Star a) st = greedyStar (rx a) n st"
  by (simp add: greedyStar_bound [of st "length (fst st)" n])

lemma rx_LazyStar_bound:
  "length (fst st) \<le> n \<Longrightarrow> rx (LazyStar a) st = lazyStar (rx a) n st"
  by (simp add: lazyStar_bound [of st "length (fst st)" n])

section \<open>Path patterns of the tsconfig\<close>

lemma backslash_special: "backslash \<in> set regexSpecialChars"
  by (simp add: backslash_def regexSpecialChars_def)

lemma literalOfEscaped_special:
  "c \<in> set regexSpecialChars \<Longrightarrow>
   literalOfEscaped (backslash # c # rest) = map_option ((#) c) (literalOfEscaped rest)"
  by simp

lemma literalOfEscaped_ordinary:
  "c \<notin> set regexSpecialChars \<Longrightarrow>
   literalOfEscaped (c # rest) = map_option ((#) c) (literalOfEscaped rest)"
  using backslash_special by (cases rest) auto

text \<open>Every source the function builds lies in the fragment, and the string it matches
  is the pattern with \<open>(.*)\<close> written for each \<open>*\<close>.\<close>

lemma literalOfEscaped_escapeSpecials: "literalOfEscaped (escapeSpecials s) = Some s"
proof (induction s)
  case Nil
  show ?case by (simp add: escapeSpecials_def)
next
  case (Cons c s)
  have step: "escapeSpecials (c # s) =
      (if c \<in> set regexSpecialChars then backslash # c # escapeSpecials s
       else c # escapeSpecials s)"
    by (simp add: escapeSpecials_def)
  show ?case
  proof (cases "c \<in> set regexSpecialChars")
    case True
    then have "literalOfEscaped (escapeSpecials (c # s)) =
        map_option ((#) c) (literalOfEscaped (escapeSpecials s))"
      by (simp add: step literalOfEscaped_special del: literalOfEscaped.simps)
    then show ?thesis by (simp add: Cons.IH)
  next
    case False
    then have "literalOfEscaped (escapeSpecials (c # s)) =
        map_option ((#) c) (literalOfEscaped (escapeSpecials s))"
      by (simp add: step literalOfEscaped_ordinary del: literalOfEscaped.simps)
    then show ?thesis by (simp add: Cons.IH)
  qed
qed

lemma regExpMatch_regexSource:
  "regExpMatch (regexSource pattern) subject =
     Some (if subject = replaceWildcards pattern then Some [subject] else None)"
  by (simp add: regExpMatch_def regexSource_def literalOfEscaped_escapeSpecials butlast_append)

lemma matchPaths_step:
  "matchPaths env importerPath specifier base ((pattern, replacements) # entries) =
     (if specifier = replaceWildcards pattern \<and> replacements \<noteq> []
      then Some (resolve env [dirname importerPath, base, hd replacements])
      else matchPaths env importerPath specifier base entries)"
  by (simp add: regExpMatch_regexSource)

text \<open>A pattern with a wildcard matches no specifier that is free of parentheses.\<close>

lemma wildcard_never_captures:
  "CHR ''*'' \<in> set pattern \<Longrightarrow> CHR ''('' \<notin> set specifier \<Longrightarrow>
   regExpMatch (regexSource pattern) specifier = Some None"
  by (auto simp add: regExpMatch_regexSource replaceWildcards_def)

text \<open>
  Claim C1.  With no import map and the tsconfig paths \<open>{"@app/*": ["./src/*"]}\<close>, base
  \<open>.\<close>, the specifier \<open>@app/button\<close> imported from \<open>/r/a.ts\<close> is not resolved at all: the
  wildcard has been escaped and captures nothing.  The only specifier the pattern
  matches is the text \<open>@app/(.*)\<close>, and the template is then used as it stands.
\<close>

theorem wildcard_pattern_unmatched:
  "resolveImportPath example ''/r/a.ts'' ''@app/button'' None (Some appPaths) = None \<and>
   resolveImportPath example ''/r/a.ts'' ''@app/(.*)'' None (Some appPaths) = Some ''/r/src/*''"
  by (simp add: resolveImportPath_def resolveImportPathLog_def resolveImportPathTry_def
      handleImportMaps_def handleTsconfigPaths_def appPaths_def matchPaths_step
      replaceWildcards_def path_defs example_cwd del: matchPaths.simps(2))

section \<open>Relative specifiers\<close>

text \<open>The search for an index file runs only after the path was found not to exist,
  and then \<open>statSync\<close> fails: it never finds anything.\<close>

lemma lookForIndex_unreachable:
  "existsSync env path = Inr False \<Longrightarrow> lookForIndex env path = None"
  by (auto simp add: existsSync_def lookForIndex_def split: sum.splits error.splits if_splits)

text \<open>
  Claim C2.  \<open>/r/lib\<close> is a directory that holds \<open>index.ts\<close>; the specifier \<open>./lib\<close>
  imported from \<open>/r/a.ts\<close> resolves to the directory itself, not to the index file.
\<close>

theorem directory_specifier_returns_directory:
  "statSync example ''/r/lib'' = Inr True \<and>
   existsSync example ''/r/lib/index.ts'' = Inr True \<and>
   resolveImportPath example ''/r/a.ts'' ''./lib'' None None = Some ''/r/lib''"
  by (simp add: resolveImportPath_def resolveImportPathLog_def resolveImportPathTry_def
      handleImportMaps_def handleTsconfigPaths_def handleRelativePaths_def
      path_defs example_simps)

section \<open>Import maps come first\<close>

text \<open>A key of the import map is a prefix of itself, so the import-map stage never
  lets a specifier that is a key fall through.\<close>

lemma prefixMatches_own_key:
  "map_of entries specifier = Some v \<Longrightarrow>
   prefixMatches env importerPath specifier entries \<noteq> None"
  by (induction entries) (auto simp add: startsWith_def split: if_splits)

lemma handleImportMaps_own_key:
  assumes "importsMap im = Some entries" and "map_of entries specifier = Some v"
  shows "handleImportMaps env importerPath specifier (Some im) \<noteq> None"
  using assms prefixMatches_own_key [OF assms(2), of env importerPath]
  by (auto simp add: handleImportMaps_def getProperty_def)

text \<open>
  Claim C4, as amended.  When the specifier is a key of the import map and its
  replacement is not the empty string, the result is the replacement resolved against
  the directory of the importer.  Whatever the replacement is, the result does not
  depend on the tsconfig: the path patterns are never consulted.
\<close>

theorem alias_exact_match_precedence:
  assumes "importsMap im = Some entries" and "map_of entries specifier = Some replacement"
  shows "(replacement \<noteq> [] \<longrightarrow>
            resolveImportPath env importerPath specifier (Some im) tsConfig =
              Some (resolve env [dirname importerPath, replacement])) \<and>
         resolveImportPath env importerPath specifier (Some im) tsConfig =
           resolveImportPath env importerPath specifier (Some im) None"
proof -
  obtain outcome where o: "handleImportMaps env importerPath specifier (Some im) = Some outcome"
    using handleImportMaps_own_key [OF assms] by blast
  have indep: "resolveImportPathTry env importerPath specifier (Some im) ts = outcome" for ts
    by (simp add: resolveImportPathTry_def o)
  have exact: "outcome = Inr (Some (resolve env [dirname importerPath, replacement]))"
    if "replacement \<noteq> []"
    using o assms that by (simp add: handleImportMaps_def getProperty_def)
  show ?thesis
    by (auto simp add: resolveImportPath_def resolveImportPathLog_def indep exact)
qed

text \<open>An instance: \<open>button\<close> is a key of the import map and also a pattern of the
  tsconfig, which alone would send it to \<open>/r/other.tsx\<close>.\<close>

theorem alias_exact_match_precedence_witness:
  "importsMap buttonMap = Some [(''button'', ''./button.tsx'')] \<and>
   map_of [(''button'', ''./button.tsx'')] ''button'' = Some ''./button.tsx'' \<and>
   resolveImportPath example ''/r/a.ts'' ''button'' (Some buttonMap) (Some buttonPaths)
     = Some ''/r/button.tsx'' \<and>
   resolveImportPath example ''/r/a.ts'' ''button'' (Some buttonMap) None
     = Some ''/r/button.tsx'' \<and>
   resolveImportPath example ''/r/a.ts'' ''button'' None (Some buttonPaths)
     = Some ''/r/other.tsx''"
proof -
  have h1: "importsMap buttonMap = Some [(''button'', ''./button.tsx'')]"
    by (simp add: buttonMap_def)
  have h2: "map_of [(''button'', ''./button.tsx'')] ''button'' = Some ''./button.tsx''"
    by simp
  have r: "resolve example [dirname ''/r/a.ts'', ''./button.tsx''] = ''/r/button.tsx''"
    by (simp add: path_defs example_cwd)
  have other: "resolveImportPath example ''/r/a.ts'' ''button'' None (Some buttonPaths)
     = Some ''/r/other.tsx''"
    by (simp add: resolveImportPath_def resolveImportPathLog_def resolveImportPathTry_def
      handleImportMaps_def handleTsconfigPaths_def buttonPaths_def matchPaths_step
      replaceWildcards_def path_defs example_cwd del: matchPaths.simps(2))
  show ?thesis
    using alias_exact_match_precedence [OF h1 h2, of example "''/r/a.ts''" "Some buttonPaths"]
      h1 h2 r other by force
qed

text \<open>
  Claim C4 as stated fails: the exact match is a truthiness test, and an empty
  replacement does not pass it.  The key \<open>ab\<close> is present with the replacement \<open>""\<close>, and
  the specifier \<open>ab\<close> is resolved through the prefix \<open>a\<close> to \<open>/r/x/b\<close>, where the exact
  match would have given \<open>/r\<close>.
\<close>

theorem empty_replacement_counterexample:
  "importsMap emptyReplacementMap = Some [(''a'', ''./x/''), (''ab'', [])] \<and>
   map_of [(''a'', ''./x/''), (''ab'', [])] ''ab'' = Some [] \<and>
   resolve example [dirname ''/r/a.ts'', []] = ''/r'' \<and>
   resolveImportPath example ''/r/a.ts'' ''ab'' (Some emptyReplacementMap) None = Some ''/r/x/b''"
  by (simp add: resolveImportPath_def resolveImportPathLog_def resolveImportPathTry_def
      handleImportMaps_def getProperty_def emptyReplacementMap_def path_defs example_cwd)

section \<open>The fallback of a relative specifier\<close>

lemma probeExtensions_none:
  "\<forall>ext \<in> set exts. existsSync env (base @ ext) = Inr False \<Longrightarrow>
   probeExtensions env base exts = Inr None"
  by (induction exts) auto

text \<open>
  Claim C5, as amended.  For a relative specifier to which neither the import map nor
  the tsconfig paths apply, when neither the resolved path nor any of the six variants
  of its extension-stripped base exists, the result is the resolved path itself.
\<close>

theorem relative_fallback_unsuffixed:
  assumes "handleImportMaps env importerPath specifier importMap = None"
    and "handleTsconfigPaths env importerPath specifier tsConfig = None"
    and "startsWith specifier ''./'' \<or> startsWith specifier ''../''"
    and "existsSync env (resolve env [dirname importerPath, specifier]) = Inr False"
    and "\<forall>ext \<in> set extensions.
           existsSync env (stripExtension (resolve env [dirname importerPath, specifier]) @ ext)
             = Inr False"
  shows "resolveImportPath env importerPath specifier importMap tsConfig =
           Some (resolve env [dirname importerPath, specifier])"
proof -
  let ?resolved = "resolve env [dirname importerPath, specifier]"
  have base: "(if hasExtension ?resolved then stripExtension ?resolved else ?resolved)
      = stripExtension ?resolved"
    by (simp add: stripExtension_def)
  have probe: "probeExtensions env (stripExtension ?resolved) extensions = Inr None"
    using assms(5) by (rule probeExtensions_none)
  have "handleRelativePaths env importerPath specifier = Inr (Some ?resolved)"
    unfolding handleRelativePaths_def Let_def base
    by (simp add: assms(4) lookForIndex_unreachable probe)
  then show ?thesis
    using assms(1-3)
    by (auto simp add: resolveImportPath_def resolveImportPathLog_def resolveImportPathTry_def)
qed

text \<open>An instance, with an import map and a tsconfig that do not apply.\<close>

theorem relative_fallback_unsuffixed_witness:
  "handleImportMaps example ''/r/a.ts'' ''./missing'' (Some buttonMap) = None \<and>
   handleTsconfigPaths example ''/r/a.ts'' ''./missing'' (Some appPaths) = None \<and>
   startsWith ''./missing'' ''./'' \<and>
   resolve example [dirname ''/r/a.ts'', ''./missing''] = ''/r/missing'' \<and>
   existsSync example ''/r/missing'' = Inr False \<and>
   stripExtension ''/r/missing'' = ''/r/missing'' \<and>
   existsSync example ''/r/missing.ts'' = Inr False \<and>
   existsSync example ''/r/missing.tsx'' = Inr False \<and>
   existsSync example ''/r/missing.js'' = Inr False \<and>
   existsSync example ''/r/missing.jsx'' = Inr False \<and>
   existsSync example ''/r/missing.mjs'' = Inr False \<and>
   existsSync example ''/r/missing.cjs'' = Inr False \<and>
   resolveImportPath example ''/r/a.ts'' ''./missing'' (Some buttonMap) (Some appPaths)
     = Some ''/r/missing''"
proof -
  have r: "resolve example [dirname ''/r/a.ts'', ''./missing''] = ''/r/missing''"
    by (simp add: path_defs example_cwd)
  have h1: "handleImportMaps example ''/r/a.ts'' ''./missing'' (Some buttonMap) = None"
    by (simp add: handleImportMaps_def getProperty_def buttonMap_def objectPrototypeKeys_def
        startsWith_def)
  have h2: "handleTsconfigPaths example ''/r/a.ts'' ''./missing'' (Some appPaths) = None"
    by (simp add: handleTsconfigPaths_def appPaths_def matchPaths_step replaceWildcards_def
        del: matchPaths.simps(2))
  have h3: "startsWith ''./missing'' ''./'' \<or> startsWith ''./missing'' ''../''"
    by (simp add: startsWith_def)
  have h4: "existsSync example ''/r/missing'' = Inr False"
    by (simp add: example_simps)
  have s: "stripExtension ''/r/missing'' = ''/r/missing''"
    by (simp add: stripExtension_def hasExtension_def extensionTail_def)
  have h5: "\<forall>ext \<in> set extensions. existsSync example (stripExtension ''/r/missing'' @ ext) = Inr False"
    by (simp add: s extensions_def example_simps)
  show ?thesis
    using relative_fallback_unsuffixed [of example "''/r/a.ts''" "''./missing''"
        "Some buttonMap" "Some appPaths"] h1 h2 h3 h4 h5 r s
    by (simp add: startsWith_def extensions_def)
qed

text \<open>
  Claim C5 as stated fails: with the import map \<open>{"./": "./src/"}\<close> the relative
  specifier \<open>./missing\<close>, for which nothing exists, is resolved by the prefix entry to
  \<open>/r/src/missing\<close> and not to \<open>/r/missing\<close>.
\<close>

theorem alias_before_relative_counterexample:
  "startsWith ''./missing'' ''./'' \<and>
   resolve example [dirname ''/r/a.ts'', ''./missing''] = ''/r/missing'' \<and>
   existsSync example ''/r/missing'' = Inr False \<and>
   probeExtensions example ''/r/missing'' extensions = Inr None \<and>
   lookForIndex example ''/r/missing'' = None \<and>
   resolveImportPath example ''/r/a.ts'' ''./missing'' (Some dotSlashMap) None
     = Some ''/r/src/missing''"
  by (simp add: resolveImportPath_def resolveImportPathLog_def resolveImportPathTry_def
      handleImportMaps_def getProperty_def dotSlashMap_def objectPrototypeKeys_def
      lookForIndex_def extensions_def path_defs example_simps)

section \<open>Errors during resolution\<close>

text \<open>
  Claim C8.  Whatever the body of \<open>resolveImportPath\<close> does, the function returns: when
  the body throws, the error is printed and the result is \<open>null\<close>; otherwise the result
  is what the body returned and nothing is printed.
\<close>

theorem resolveImportPath_catches:
  "(resolveImportPathTry env importerPath specifier importMap tsConfig = Inl e \<longrightarrow>
      resolveImportPathLog env importerPath specifier importMap tsConfig
        = (None, [ErrorResolving specifier importerPath e]) \<and>
      resolveImportPath env importerPath specifier importMap tsConfig = None) \<and>
   (resolveImportPathTry env importerPath specifier importMap tsConfig = Inr result \<longrightarrow>
      resolveImportPathLog env importerPath specifier importMap tsConfig = (result, []) \<and>
      resolveImportPath env importerPath specifier importMap tsConfig = result)"
  by (simp add: resolveImportPath_def resolveImportPathLog_def)

text \<open>Instances: a permission error while probing \<open>/r/secret\<close>, a \<open>TypeError\<close> from a
  property inherited by the imports object, and a resolution that succeeds.\<close>

theorem resolveImportPath_catches_witness:
  "resolveImportPathTry example ''/r/a.ts'' ''./secret'' None None = Inl PermissionDenied \<and>
   resolveImportPath example ''/r/a.ts'' ''./secret'' None None = None \<and>
   resolveImportPathTry example ''/r/a.ts'' ''toString'' (Some \<lparr>importsMap = Some []\<rparr>) None
     = Inl TypeError \<and>
   resolveImportPath example ''/r/a.ts'' ''toString'' (Some \<lparr>importsMap = Some []\<rparr>) None = None \<and>
   resolveImportPathTry example ''/r/a.ts'' ''./foo/x'' None None = Inr (Some ''/r/foo/x.ts'') \<and>
   resolveImportPath example ''/r/a.ts'' ''./foo/x'' None None = Some ''/r/foo/x.ts''"
proof -
  have t1: "resolveImportPathTry example ''/r/a.ts'' ''./secret'' None None = Inl PermissionDenied"
    by (simp add: resolveImportPathTry_def handleImportMaps_def handleTsconfigPaths_def
        handleRelativePaths_def path_defs example_simps)
  have t2: "resolveImportPathTry example ''/r/a.ts'' ''toString'' (Some \<lparr>importsMap = Some []\<rparr>) None
     = Inl TypeError"
    by (simp add: resolveImportPathTry_def handleImportMaps_def getProperty_def
        objectPrototypeKeys_def)
  have t3: "resolveImportPathTry example ''/r/a.ts'' ''./foo/x'' None None = Inr (Some ''/r/foo/x.ts'')"
    by (simp add: resolveImportPathTry_def handleImportMaps_def handleTsconfigPaths_def
        handleRelativePaths_def lookForIndex_def hasExtension_def extensionTail_def
        extensions_def path_defs example_simps)
  show ?thesis
    using resolveImportPath_catches [of example "''/r/a.ts''" "''./secret''" None None PermissionDenied]
      resolveImportPath_catches [of example "''/r/a.ts''" "''toString''" "Some \<lparr>importsMap = Some []\<rparr>" None TypeError]
      resolveImportPath_catches [of example "''/r/a.ts''" "''./foo/x''" None None _ "Some ''/r/foo/x.ts''"]
      t1 t2 t3 by simp
qed


section \<open>The target\<close>

lemma existsSync_False_statSync:
  "existsSync env path = Inr False \<Longrightarrow> statSync env path = Inl NotFound"
  by (auto simp add: existsSync_def split: sum.splits error.splits if_splits)

text \<open>
  Claim C6.  When the normalized target path does not exist and none of the six
  variants of its extension-stripped base exists, \<open>findImporters\<close> throws \<open>NotFound\<close>: no
  file is processed and no result is returned.
\<close>

theorem missing_target_raises_NotFound:
  assumes "existsSync env (resolve env [targetFilePath]) = Inr False"
    and "\<forall>ext \<in> set extensions.
           existsSync env (stripExtension (resolve env [targetFilePath]) @ ext) = Inr False"
  shows "findImportersRun env targetFilePath files rootPath
           = (Inl NotFound, loadWarnings env rootPath) \<and>
         findImporters env targetFilePath files rootPath = Inl NotFound"
proof -
  let ?path = "resolve env [targetFilePath]"
  have base: "(if hasExtension ?path then stripExtension ?path else ?path) = stripExtension ?path"
    by (simp add: stripExtension_def)
  have probe: "probeExtensions env (stripExtension ?path) extensions = Inr None"
    using assms(2) by (rule probeExtensions_none)
  have "normalizeTarget env targetFilePath = Inl NotFound"
    unfolding normalizeTarget_def Let_def base
    by (simp add: assms(1) existsSync_False_statSync probe)
  then show ?thesis
    by (simp add: findImporters_def findImportersRun_def)
qed

text \<open>An instance: \<open>/r/nothing.ts\<close> in the example tree.\<close>

theorem missing_target_raises_NotFound_witness:
  "resolve example [''/r/nothing.ts''] = ''/r/nothing.ts'' \<and>
   existsSync example ''/r/nothing.ts'' = Inr False \<and>
   stripExtension ''/r/nothing.ts'' = ''/r/nothing'' \<and>
   existsSync example ''/r/nothing.tsx'' = Inr False \<and>
   existsSync example ''/r/nothing.js'' = Inr False \<and>
   existsSync example ''/r/nothing.jsx'' = Inr False \<and>
   existsSync example ''/r/nothing.mjs'' = Inr False \<and>
   existsSync example ''/r/nothing.cjs'' = Inr False \<and>
   findImporters example ''/r/nothing.ts'' [''/r/a.ts'', ''/r/b.ts''] ''/r'' = Inl NotFound"
proof -
  have r: "resolve example [''/r/nothing.ts''] = ''/r/nothing.ts''"
    by (simp add: path_defs example_cwd)
  have s: "stripExtension ''/r/nothing.ts'' = ''/r/nothing''"
    by (simp add: stripExtension_def hasExtension_def extensionTail_def)
  have h1: "existsSync example (resolve example [''/r/nothing.ts'']) = Inr False"
    by (simp add: r example_simps)
  have h2: "\<forall>ext \<in> set extensions.
      existsSync example (stripExtension (resolve example [''/r/nothing.ts'']) @ ext) = Inr False"
    by (simp add: r s extensions_def example_simps)
  show ?thesis
    using missing_target_raises_NotFound [OF h1 h2, of "[''/r/a.ts'', ''/r/b.ts'']" "''/r''"]
      h1 h2 r s
    by (simp add: extensions_def)
qed

section \<open>The target is not an importer of itself\<close>

text \<open>Every result of a file carries the path of that file, and a file that hits the
  target yields nothing: it is passed over before anything is read.\<close>

lemma checkImports_sourceFile:
  "r \<in> set (fst (checkImports env importMap tsConfig normalizedTargetPath isTargetDirectory
                    filePath stmts)) \<Longrightarrow> sourceFile r = filePath"
proof (induction stmts)
  case Nil
  then show ?case by simp
next
  case (Cons imp stmts)
  then show ?case
    by (auto simp add: Let_def split: prod.splits option.splits if_splits)
qed

lemma processFile_skips_target:
  "hitsTarget env normalizedTargetPath isTargetDirectory filePath \<Longrightarrow>
   processFile env importMap tsConfig normalizedTargetPath isTargetDirectory filePath = ([], [])"
  by (simp add: processFile_def processFileTry_def)

lemma processFile_sourceFile:
  assumes "r \<in> set (fst (processFile env importMap tsConfig normalizedTargetPath
                            isTargetDirectory filePath))"
  shows "sourceFile r = filePath \<and>
         \<not> hitsTarget env normalizedTargetPath isTargetDirectory filePath"
proof -
  have hit: "\<not> hitsTarget env normalizedTargetPath isTargetDirectory filePath"
    using assms by (auto simp add: processFile_skips_target)
  have "sourceFile r = filePath"
  proof (cases "processFileTry env importMap tsConfig normalizedTargetPath isTargetDirectory
                  filePath")
    case (Inl e)
    then show ?thesis
      using assms by (cases e) (simp_all add: processFile_def)
  next
    case (Inr outcome)
    then have "r \<in> set (fst outcome)"
      using assms by (simp add: processFile_def)
    then show ?thesis
      using Inr hit
      by (auto simp add: processFileTry_def checkImports_sourceFile
          split: sum.splits if_splits)
  qed
  then show ?thesis using hit by simp
qed

lemma processFiles_sourceFile:
  "r \<in> set (fst (processFiles env importMap tsConfig normalizedTargetPath isTargetDirectory
                    files)) \<Longrightarrow>
   sourceFile r \<in> set files \<and>
   \<not> hitsTarget env normalizedTargetPath isTargetDirectory (sourceFile r)"
proof (induction files)
  case Nil
  then show ?case by simp
next
  case (Cons filePath files)
  then show ?case
    using processFile_sourceFile [of r env importMap tsConfig normalizedTargetPath
        isTargetDirectory filePath]
    by (auto simp add: Let_def split: prod.splits)
qed

lemma findImporters_Inr:
  assumes "findImporters env targetFilePath files rootPath = Inr found"
  obtains normalizedTargetPath isTargetDirectory where
    "normalizeTarget env targetFilePath = Inr (normalizedTargetPath, isTargetDirectory)"
    "found = fst (processFiles env (loadedImportMap env rootPath) (loadedTsConfig env rootPath)
                    normalizedTargetPath isTargetDirectory files)"
  using assms
  by (auto simp add: findImporters_def findImportersRun_def Let_def
      split: sum.splits prod.splits)

text \<open>
  Claim C3.  When \<open>findImporters\<close> returns, no result has the target as its source file:
  with a file target the resolved source path differs from the normalized target path,
  with a directory target it does not begin with it.  A candidate that is the target, or
  lies in the target directory, contributes nothing and prints nothing, whatever the
  list of files is.
\<close>

theorem target_never_reported:
  assumes "findImporters env targetFilePath files rootPath = Inr found"
  shows "\<exists>normalizedTargetPath isTargetDirectory.
           normalizeTarget env targetFilePath = Inr (normalizedTargetPath, isTargetDirectory) \<and>
           (\<forall>r \<in> set found.
              if isTargetDirectory
              then \<not> startsWith (resolve env [sourceFile r]) normalizedTargetPath
              else resolve env [sourceFile r] \<noteq> normalizedTargetPath) \<and>
           (\<forall>filePath importMap tsConfig.
              (if isTargetDirectory
               then startsWith (resolve env [filePath]) normalizedTargetPath
               else resolve env [filePath] = normalizedTargetPath) \<longrightarrow>
              processFile env importMap tsConfig normalizedTargetPath isTargetDirectory filePath
                = ([], []))"
proof -
  obtain normalizedTargetPath isTargetDirectory where
    n: "normalizeTarget env targetFilePath = Inr (normalizedTargetPath, isTargetDirectory)" and
    f: "found = fst (processFiles env (loadedImportMap env rootPath)
                       (loadedTsConfig env rootPath) normalizedTargetPath isTargetDirectory files)"
    using assms by (rule findImporters_Inr)
  have "\<not> hitsTarget env normalizedTargetPath isTargetDirectory (sourceFile r)"
    if "r \<in> set found" for r
    using that processFiles_sourceFile unfolding f by blast
  moreover have "processFile env importMap tsConfig normalizedTargetPath isTargetDirectory
      filePath = ([], [])"
    if "hitsTarget env normalizedTargetPath isTargetDirectory filePath"
    for filePath importMap tsConfig
    using that by (rule processFile_skips_target)
  ultimately have
    "(\<forall>r \<in> set found. \<not> hitsTarget env normalizedTargetPath isTargetDirectory (sourceFile r)) \<and>
     (\<forall>filePath importMap tsConfig.
        hitsTarget env normalizedTargetPath isTargetDirectory filePath \<longrightarrow>
        processFile env importMap tsConfig normalizedTargetPath isTargetDirectory filePath
          = ([], []))"
    by blast
  then have "(\<forall>r \<in> set found.
              if isTargetDirectory
              then \<not> startsWith (resolve env [sourceFile r]) normalizedTargetPath
              else resolve env [sourceFile r] \<noteq> normalizedTargetPath) \<and>
           (\<forall>filePath importMap tsConfig.
              (if isTargetDirectory
               then startsWith (resolve env [filePath]) normalizedTargetPath
               else resolve env [filePath] = normalizedTargetPath) \<longrightarrow>
              processFile env importMap tsConfig normalizedTargetPath isTargetDirectory filePath
                = ([], []))"
    unfolding hitsTarget_def by (cases isTargetDirectory) simp_all
  with n show ?thesis by blast
qed

section \<open>The example, file by file\<close>

lemmas rx_defs = matchLine_def es6ImportPatterns_def cjsRequirePatterns_def
  dynamicImportPattern_def namedImportPattern_def seqs_def spaces_def spaces1_def
  oneOrMore_def identifierRx_def braces_def declarator_def quotedModule_def quoteRx_def
  extensionAlternatives_def matchAtStart_def startsWith_def isWhiteSpace_def isWordChar_def
  isLineTerminator_def trim_def importLine_def

lemma parse_a: "parseImports example ''/r/a.ts'' =
   Inr [\<lparr>type = es6, module = ''./foo-bar.ts'', isDynamic = False, stmtLineNumber = 1\<rparr>]"
  by (simp add: parseImports_def parseImportsTry_def example_simps rx_defs)

lemma parse_b: "parseImports example ''/r/b.ts'' =
   Inr [\<lparr>type = es6, module = ''./foo/y.ts'', isDynamic = False, stmtLineNumber = 1\<rparr>,
        \<lparr>type = es6, module = ''./foo/x.ts'', isDynamic = False, stmtLineNumber = 2\<rparr>]"
  by (simp add: parseImports_def parseImportsTry_def example_simps rx_defs)

lemma parse_c: "parseImports example ''/r/c.ts'' =
   Inr [\<lparr>type = es6, module = ''./foo/x'', isDynamic = False, stmtLineNumber = 1\<rparr>]"
  by (simp add: parseImports_def parseImportsTry_def example_simps rx_defs)

lemma parse_x: "parseImports example ''/r/foo/x.ts'' =
   Inr [\<lparr>type = es6, module = ''./x.ts'', isDynamic = False, stmtLineNumber = 1\<rparr>]"
  by (simp add: parseImports_def parseImportsTry_def example_simps rx_defs)

lemma parse_foobar: "parseImports example ''/r/foo-bar.ts'' =
   Inr [\<lparr>type = es6, module = ''./foo/x.ts'', isDynamic = False, stmtLineNumber = 1\<rparr>]"
  by (simp add: parseImports_def parseImportsTry_def example_simps rx_defs)

lemma parse_unreadable: "parseImports example ''/r/unreadable.ts'' = Inl GenericError"
  by (simp add: parseImports_def parseImportsTry_def example_simps)

lemma parse_gone: "parseImports example ''/r/gone.ts'' = Inl NotFound"
  by (simp add: parseImports_def parseImportsTry_def example_simps)

lemma example_config:
  "loadedImportMap example ''/r'' = None" "loadedTsConfig example ''/r'' = None"
  "loadWarnings example ''/r'' = []"
  by (simp_all add: loadedImportMap_def loadedTsConfig_def loadWarnings_def loadImportMap_def
      loadTsConfig_def path_defs example_simps)

lemmas resolve_defs = resolveImportPathLog_def resolveImportPathTry_def
      handleImportMaps_def handleTsconfigPaths_def handleRelativePaths_def lookForIndex_def
      hasExtension_def stripExtension_def extensionTail_def extensions_def

lemma resolve_from_r:
  "resolveImportPathLog example ''/r/a.ts'' ''./foo-bar.ts'' None None = (Some ''/r/foo-bar.ts'', [])"
  "resolveImportPathLog example ''/r/b.ts'' ''./foo/y.ts'' None None = (Some ''/r/foo/y.ts'', [])"
  "resolveImportPathLog example ''/r/b.ts'' ''./foo/x.ts'' None None = (Some ''/r/foo/x.ts'', [])"
  "resolveImportPathLog example ''/r/c.ts'' ''./foo/x'' None None = (Some ''/r/foo/x.ts'', [])"
  "resolveImportPathLog example ''/r/foo-bar.ts'' ''./foo/x.ts'' None None = (Some ''/r/foo/x.ts'', [])"
  "resolveImportPathLog example ''/r/foo/x.ts'' ''./x.ts'' None None = (Some ''/r/foo/x.ts'', [])"
  by (simp_all add: resolve_defs path_defs example_simps)

lemma normalizeTarget_x: "normalizeTarget example ''/r/foo/x.ts'' = Inr (''/r/foo/x.ts'', False)"
  by (simp add: normalizeTarget_def path_defs example_simps)

lemma normalizeTarget_foo: "normalizeTarget example ''/r/foo'' = Inr (''/r/foo'', True)"
  by (simp add: normalizeTarget_def path_defs example_simps)

lemmas process_defs = processFile_def processFileTry_def hitsTarget_def

lemma processFile_x:
  "processFile example None None ''/r/foo/x.ts'' False ''/r/b.ts'' =
     ([\<lparr>sourceFile = ''/r/b.ts'', importPath = ''./foo/x.ts'', lineNumber = 2,
        resolvedPath = ''/r/foo/x.ts''\<rparr>], [])"
  "processFile example None None ''/r/foo/x.ts'' False ''/r/c.ts'' =
     ([\<lparr>sourceFile = ''/r/c.ts'', importPath = ''./foo/x'', lineNumber = 1,
        resolvedPath = ''/r/foo/x.ts''\<rparr>], [])"
  "processFile example None None ''/r/foo/x.ts'' False ''/r/foo/x.ts'' = ([], [])"
  "processFile example None None ''/r/foo/x.ts'' False ''/r/unreadable.ts'' =
     ([], [ErrorProcessing ''/r/unreadable.ts'' GenericError])"
  "processFile example None None ''/r/foo/x.ts'' False ''/r/gone.ts'' =
     ([], [WarnSkipping ''/r/gone.ts''])"
  "processFile example None None ''/r/foo/x.ts'' False ''/r/nope.ts'' =
     ([], [WarnNonExistent ''/r/nope.ts''])"
  "processFile example None None ''/r/foo/x.ts'' False ''/r/secret'' =
     ([], [ErrorProcessing ''/r/secret'' PermissionDenied])"
  by (simp_all add: process_defs parse_b parse_c parse_unreadable parse_gone resolve_from_r
       path_defs example_simps)

text \<open>An instance: the target \<open>/r/foo/x.ts\<close> imports itself and is in the list, and only
  \<open>/r/b.ts\<close> is reported.\<close>

theorem target_never_reported_witness:
  "findImporters example ''/r/foo/x.ts'' [''/r/b.ts'', ''/r/foo/x.ts''] ''/r'' =
     Inr [\<lparr>sourceFile = ''/r/b.ts'', importPath = ''./foo/x.ts'', lineNumber = 2,
           resolvedPath = ''/r/foo/x.ts''\<rparr>] \<and>
   normalizeTarget example ''/r/foo/x.ts'' = Inr (''/r/foo/x.ts'', False) \<and>
   resolve example [''/r/b.ts''] \<noteq> ''/r/foo/x.ts'' \<and>
   resolve example [''/r/foo/x.ts''] = ''/r/foo/x.ts'' \<and>
   parseImports example ''/r/foo/x.ts'' =
     Inr [\<lparr>type = es6, module = ''./x.ts'', isDynamic = False, stmtLineNumber = 1\<rparr>] \<and>
   resolveImportPath example ''/r/foo/x.ts'' ''./x.ts'' None None = Some ''/r/foo/x.ts'' \<and>
   processFile example None None ''/r/foo/x.ts'' False ''/r/foo/x.ts'' = ([], [])"
proof -
  let ?r = "\<lparr>sourceFile = ''/r/b.ts'', importPath = ''./foo/x.ts'', lineNumber = 2,
           resolvedPath = ''/r/foo/x.ts''\<rparr>"
  have run: "findImporters example ''/r/foo/x.ts'' [''/r/b.ts'', ''/r/foo/x.ts''] ''/r'' = Inr [?r]"
    by (simp add: findImporters_def findImportersRun_def example_config normalizeTarget_x
        processFile_x)
  have self: "resolve example [''/r/foo/x.ts''] = ''/r/foo/x.ts''"
    by (simp add: path_defs example_cwd)
  from target_never_reported [OF run] obtain normalizedTargetPath isTargetDirectory where
    n: "normalizeTarget example ''/r/foo/x.ts'' = Inr (normalizedTargetPath, isTargetDirectory)" and
    out: "\<forall>r \<in> set [?r].
              if isTargetDirectory
              then \<not> startsWith (resolve example [sourceFile r]) normalizedTargetPath
              else resolve example [sourceFile r] \<noteq> normalizedTargetPath" and
    skip: "\<forall>filePath importMap tsConfig.
              (if isTargetDirectory
               then startsWith (resolve example [filePath]) normalizedTargetPath
               else resolve example [filePath] = normalizedTargetPath) \<longrightarrow>
              processFile example importMap tsConfig normalizedTargetPath isTargetDirectory filePath
                = ([], [])"
    by blast
  from n have eq: "normalizedTargetPath = ''/r/foo/x.ts''" "isTargetDirectory = False"
    by (simp_all add: normalizeTarget_x)
  from out have a: "resolve example [''/r/b.ts''] \<noteq> ''/r/foo/x.ts''"
    by (simp add: eq)
  from skip self have b: "processFile example None None ''/r/foo/x.ts'' False ''/r/foo/x.ts'' = ([], [])"
    by (simp add: eq)
  show ?thesis
    using run n a b self parse_x resolve_from_r(6)
    by (simp add: eq resolveImportPath_def)
qed

section \<open>A file that fails does not stop the scan\<close>

lemma processFiles_append:
  "processFiles env importMap tsConfig normalizedTargetPath isTargetDirectory (before @ after) =
     (fst (processFiles env importMap tsConfig normalizedTargetPath isTargetDirectory before)
        @ fst (processFiles env importMap tsConfig normalizedTargetPath isTargetDirectory after),
      snd (processFiles env importMap tsConfig normalizedTargetPath isTargetDirectory before)
        @ snd (processFiles env importMap tsConfig normalizedTargetPath isTargetDirectory after))"
  by (induction before) (simp_all add: Let_def split: prod.splits)

lemma processDirectoryFiles_append:
  "processDirectoryFiles env importMap tsConfig normalizedTargetPath (before @ after) =
     (fst (processDirectoryFiles env importMap tsConfig normalizedTargetPath before)
        @ fst (processDirectoryFiles env importMap tsConfig normalizedTargetPath after),
      snd (processDirectoryFiles env importMap tsConfig normalizedTargetPath before)
        @ snd (processDirectoryFiles env importMap tsConfig normalizedTargetPath after))"
  by (induction before) (simp_all add: Let_def split: prod.splits)

text \<open>What the loop makes of a file that fails.\<close>

lemma processFile_failure:
  assumes "processFileTry env importMap tsConfig normalizedTargetPath isTargetDirectory filePath
             = Inl e \<or>
           \<not> hitsTarget env normalizedTargetPath isTargetDirectory filePath \<and>
             existsSync env filePath = Inr False"
  shows "\<exists>message. processFile env importMap tsConfig normalizedTargetPath isTargetDirectory filePath
           = ([], [message]) \<and>
         message \<in> {WarnNonExistent filePath, WarnSkipping filePath, ErrorProcessing filePath e}"
  using assms by (cases e) (auto simp add: processFile_def processFileTry_def)

lemma processDirectoryFile_failure:
  assumes "processDirectoryFileTry env importMap tsConfig normalizedTargetPath filePath = Inl e \<or>
           \<not> startsWith (resolve env [filePath]) normalizedTargetPath \<and>
             existsSync env filePath = Inr False"
  shows "\<exists>message. processDirectoryFile env importMap tsConfig normalizedTargetPath filePath
           = ([], [message]) \<and>
         message \<in> {WarnNonExistent filePath, WarnSkipping filePath, ErrorProcessing filePath e}"
  using assms by (cases e) (auto simp add: processDirectoryFile_def processDirectoryFileTry_def)

text \<open>
  Claim C7.  Let the target be accepted, and let the processing of one file of the list
  throw an error, or let that file not exist.  Then both matchers return a result, it is
  the result for the list without that file, and a message naming the file is printed:
  \<open>Warning: Skipping non-existent file\<close>, \<open>Warning: Skipping file\<close> (for \<open>NotFound\<close>) or
  \<open>Error processing\<close> (for any other error).
\<close>

theorem file_errors_are_contained:
  fixes collate :: "string \<Rightarrow> 'k::linorder"
  shows
  "(normalizeTarget env targetPath = Inr (normalizedTargetPath, isTargetDirectory) \<and>
    (processFileTry env (loadedImportMap env rootPath) (loadedTsConfig env rootPath)
       normalizedTargetPath isTargetDirectory filePath = Inl e \<or>
     \<not> hitsTarget env normalizedTargetPath isTargetDirectory filePath \<and>
       existsSync env filePath = Inr False) \<longrightarrow>
    (\<exists>found message.
       findImporters env targetPath (before @ filePath # after) rootPath = Inr found \<and>
       findImporters env targetPath (before @ after) rootPath = Inr found \<and>
       message \<in> set (snd (findImportersRun env targetPath (before @ filePath # after) rootPath)) \<and>
       message \<in> {WarnNonExistent filePath, WarnSkipping filePath, ErrorProcessing filePath e}))
   \<and>
   (checkTargetDirectory env targetPath = Inr normalizedTargetPath \<and>
    (processDirectoryFileTry env (loadedImportMap env rootPath) (loadedTsConfig env rootPath)
       normalizedTargetPath filePath = Inl e \<or>
     \<not> startsWith (resolve env [filePath]) normalizedTargetPath \<and>
       existsSync env filePath = Inr False) \<longrightarrow>
    (\<exists>result message.
       findDirectoryImporters collate env targetPath (before @ filePath # after) rootPath
         = Inr result \<and>
       findDirectoryImporters collate env targetPath (before @ after) rootPath = Inr result \<and>
       message \<in> set (snd (findDirectoryImportersRun collate env targetPath
                               (before @ filePath # after) rootPath)) \<and>
       message \<in> {WarnNonExistent filePath, WarnSkipping filePath, ErrorProcessing filePath e}))"
proof (intro conjI impI)
  let ?im = "loadedImportMap env rootPath" and ?ts = "loadedTsConfig env rootPath"
  assume a: "normalizeTarget env targetPath = Inr (normalizedTargetPath, isTargetDirectory) \<and>
    (processFileTry env ?im ?ts normalizedTargetPath isTargetDirectory filePath = Inl e \<or>
     \<not> hitsTarget env normalizedTargetPath isTargetDirectory filePath \<and>
       existsSync env filePath = Inr False)"
  then obtain message where
    m: "processFile env ?im ?ts normalizedTargetPath isTargetDirectory filePath = ([], [message])"
       "message \<in> {WarnNonExistent filePath, WarnSkipping filePath, ErrorProcessing filePath e}"
    using processFile_failure [of env ?im ?ts normalizedTargetPath isTargetDirectory filePath e]
    by blast
  let ?P = "processFiles env ?im ?ts normalizedTargetPath isTargetDirectory"
  have incl: "?P (before @ filePath # after) =
      (fst (?P before) @ fst (?P after), snd (?P before) @ message # snd (?P after))"
    by (simp add: processFiles_append [of _ _ _ _ _ before "filePath # after"] m Let_def
        split: prod.splits)
  have excl: "?P (before @ after) =
      (fst (?P before) @ fst (?P after), snd (?P before) @ snd (?P after))"
    by (rule processFiles_append)
  show "\<exists>found message.
       findImporters env targetPath (before @ filePath # after) rootPath = Inr found \<and>
       findImporters env targetPath (before @ after) rootPath = Inr found \<and>
       message \<in> set (snd (findImportersRun env targetPath (before @ filePath # after) rootPath)) \<and>
       message \<in> {WarnNonExistent filePath, WarnSkipping filePath, ErrorProcessing filePath e}"
    using a m(2)
    by (intro exI [of _ "fst (?P before) @ fst (?P after)"] exI [of _ message])
       (simp add: findImporters_def findImportersRun_def incl excl)
next
  let ?im = "loadedImportMap env rootPath" and ?ts = "loadedTsConfig env rootPath"
  assume a: "checkTargetDirectory env targetPath = Inr normalizedTargetPath \<and>
    (processDirectoryFileTry env ?im ?ts normalizedTargetPath filePath = Inl e \<or>
     \<not> startsWith (resolve env [filePath]) normalizedTargetPath \<and>
       existsSync env filePath = Inr False)"
  then obtain message where
    m: "processDirectoryFile env ?im ?ts normalizedTargetPath filePath = ([], [message])"
       "message \<in> {WarnNonExistent filePath, WarnSkipping filePath, ErrorProcessing filePath e}"
    using processDirectoryFile_failure [of env ?im ?ts normalizedTargetPath filePath e]
    by blast
  let ?P = "processDirectoryFiles env ?im ?ts normalizedTargetPath"
  have incl: "?P (before @ filePath # after) =
      (fst (?P before) @ fst (?P after), snd (?P before) @ message # snd (?P after))"
    by (simp add: processDirectoryFiles_append [of _ _ _ _ before "filePath # after"] m Let_def
        split: prod.splits)
  have excl: "?P (before @ after) =
      (fst (?P before) @ fst (?P after), snd (?P before) @ snd (?P after))"
    by (rule processDirectoryFiles_append)
  let ?sorted = "sortGroups collate (importGroupsOf (fst (?P before) @ fst (?P after)))"
  show "\<exists>result message.
       findDirectoryImporters collate env targetPath (before @ filePath # after) rootPath
         = Inr result \<and>
       findDirectoryImporters collate env targetPath (before @ after) rootPath = Inr result \<and>
       message \<in> set (snd (findDirectoryImportersRun collate env targetPath
                               (before @ filePath # after) rootPath)) \<and>
       message \<in> {WarnNonExistent filePath, WarnSkipping filePath, ErrorProcessing filePath e}"
    using a m(2)
    by (intro exI [of _ "\<lparr>target = targetPath, root = rootPath,
                           count = sum_list (map (\<lambda>g. length (importers g)) ?sorted),
                           groups = ?sorted\<rparr>"] exI [of _ message])
       (simp add: findDirectoryImporters_def findDirectoryImportersRun_def incl excl Let_def)
qed

section \<open>The example with a directory target\<close>

lemma checkTargetDirectory_foo: "checkTargetDirectory example ''/r/foo'' = Inr ''/r/foo''"
  by (simp add: checkTargetDirectory_def path_defs example_simps)

lemmas processDirectory_defs = processDirectoryFile_def processDirectoryFileTry_def

lemma processDirectoryFile_foo:
  "processDirectoryFile example None None ''/r/foo'' ''/r/a.ts'' =
     ([(''../foo-bar.ts'',
        \<lparr>sourceFile = ''/r/a.ts'', importPath = ''./foo-bar.ts'', lineNumber = 1\<rparr>)], [])"
  "processDirectoryFile example None None ''/r/foo'' ''/r/b.ts'' =
     ([(''y.ts'', \<lparr>sourceFile = ''/r/b.ts'', importPath = ''./foo/y.ts'', lineNumber = 1\<rparr>),
       (''x.ts'', \<lparr>sourceFile = ''/r/b.ts'', importPath = ''./foo/x.ts'', lineNumber = 2\<rparr>)], [])"
  "processDirectoryFile example None None ''/r/foo'' ''/r/c.ts'' =
     ([(''x.ts'', \<lparr>sourceFile = ''/r/c.ts'', importPath = ''./foo/x'', lineNumber = 1\<rparr>)], [])"
  "processDirectoryFile example None None ''/r/foo'' ''/r/foo-bar.ts'' = ([], [])"
  "processDirectoryFile example None None ''/r/foo'' ''/r/foo/x.ts'' = ([], [])"
  "processDirectoryFile example None None ''/r/foo'' ''/r/gone.ts'' =
     ([], [WarnSkipping ''/r/gone.ts''])"
  by (simp_all add: processDirectory_defs parse_a parse_b parse_c parse_gone resolve_from_r
       path_defs example_simps)

lemma processFile_foo:
  "processFile example None None ''/r/foo'' True ''/r/a.ts'' =
     ([\<lparr>sourceFile = ''/r/a.ts'', importPath = ''./foo-bar.ts'', lineNumber = 1,
        resolvedPath = ''/r/foo-bar.ts''\<rparr>], [])"
  "processFile example None None ''/r/foo'' True ''/r/foo-bar.ts'' = ([], [])"
  by (simp_all add: process_defs parse_a resolve_from_r path_defs example_simps)

text \<open>
  Claim C10.  The target directory is \<open>/r/foo\<close>; \<open>/r/foo-bar.ts\<close> is a sibling of it, in
  \<open>/r\<close>, whose path begins with \<open>/r/foo\<close>.  The import of \<open>./foo-bar.ts\<close> by \<open>/r/a.ts\<close> is
  counted as a match and grouped under \<open>../foo-bar.ts\<close>, by \<open>findDirectoryImporters\<close> and
  by \<open>findImporters\<close> alike; and the candidate \<open>/r/foo-bar.ts\<close>, which does import
  \<open>/r/foo/x.ts\<close>, is passed over as if it were inside the target.
\<close>

theorem prefix_containment_has_no_boundary:
  "startsWith ''/r/foo-bar.ts'' ''/r/foo'' \<and>
   dirname ''/r/foo-bar.ts'' = ''/r'' \<and>
   relative example ''/r/foo'' ''/r/foo-bar.ts'' = ''../foo-bar.ts'' \<and>
   findDirectoryImporters (\<lambda>s. s) example ''/r/foo'' [''/r/a.ts'', ''/r/foo-bar.ts''] ''/r'' =
     Inr \<lparr>target = ''/r/foo'', root = ''/r'', count = 1,
          groups = [\<lparr>importedFile = ''../foo-bar.ts'',
                     importers = [\<lparr>sourceFile = ''/r/a.ts'', importPath = ''./foo-bar.ts'',
                                   lineNumber = 1\<rparr>]\<rparr>]\<rparr> \<and>
   findImporters example ''/r/foo'' [''/r/a.ts'', ''/r/foo-bar.ts''] ''/r'' =
     Inr [\<lparr>sourceFile = ''/r/a.ts'', importPath = ''./foo-bar.ts'', lineNumber = 1,
           resolvedPath = ''/r/foo-bar.ts''\<rparr>] \<and>
   parseImports example ''/r/foo-bar.ts'' =
     Inr [\<lparr>type = es6, module = ''./foo/x.ts'', isDynamic = False, stmtLineNumber = 1\<rparr>] \<and>
   resolveImportPath example ''/r/foo-bar.ts'' ''./foo/x.ts'' None None = Some ''/r/foo/x.ts'' \<and>
   processDirectoryFile example None None ''/r/foo'' ''/r/foo-bar.ts'' = ([], []) \<and>
   processFile example None None ''/r/foo'' True ''/r/foo-bar.ts'' = ([], [])"
proof -
  have paths: "startsWith ''/r/foo-bar.ts'' ''/r/foo''" "dirname ''/r/foo-bar.ts'' = ''/r''"
    "relative example ''/r/foo'' ''/r/foo-bar.ts'' = ''../foo-bar.ts''"
    by (simp_all add: path_defs example_cwd)
  have dir: "findDirectoryImporters (\<lambda>s. s) example ''/r/foo'' [''/r/a.ts'', ''/r/foo-bar.ts''] ''/r'' =
     Inr \<lparr>target = ''/r/foo'', root = ''/r'', count = 1,
          groups = [\<lparr>importedFile = ''../foo-bar.ts'',
                     importers = [\<lparr>sourceFile = ''/r/a.ts'', importPath = ''./foo-bar.ts'',
                                   lineNumber = 1\<rparr>]\<rparr>]\<rparr>"
    by (simp add: findDirectoryImporters_def findDirectoryImportersRun_def example_config
        checkTargetDirectory_foo processDirectoryFile_foo importGroupsOf_def sortGroups_def)
  have plain: "findImporters example ''/r/foo'' [''/r/a.ts'', ''/r/foo-bar.ts''] ''/r'' =
     Inr [\<lparr>sourceFile = ''/r/a.ts'', importPath = ''./foo-bar.ts'', lineNumber = 1,
           resolvedPath = ''/r/foo-bar.ts''\<rparr>]"
    by (simp add: findImporters_def findImportersRun_def example_config normalizeTarget_foo
        processFile_foo)
  show ?thesis
    using paths dir plain parse_foobar resolve_from_r(5) processDirectoryFile_foo(4)
      processFile_foo(2)
    by (simp add: resolveImportPath_def)
qed

text \<open>Instances for claim C7: an unreadable file in a scan for a file target, and a file
  that is gone when it is read in a scan for a directory target.\<close>

theorem file_errors_are_contained_witness:
  "normalizeTarget example ''/r/foo/x.ts'' = Inr (''/r/foo/x.ts'', False) \<and>
   processFileTry example None None ''/r/foo/x.ts'' False ''/r/unreadable.ts'' = Inl GenericError \<and>
   findImportersRun example ''/r/foo/x.ts'' [''/r/b.ts'', ''/r/unreadable.ts'', ''/r/c.ts''] ''/r'' =
     (Inr [\<lparr>sourceFile = ''/r/b.ts'', importPath = ''./foo/x.ts'', lineNumber = 2,
            resolvedPath = ''/r/foo/x.ts''\<rparr>,
           \<lparr>sourceFile = ''/r/c.ts'', importPath = ''./foo/x'', lineNumber = 1,
            resolvedPath = ''/r/foo/x.ts''\<rparr>],
      [ErrorProcessing ''/r/unreadable.ts'' GenericError]) \<and>
   findImporters example ''/r/foo/x.ts'' [''/r/b.ts'', ''/r/c.ts''] ''/r'' =
     Inr [\<lparr>sourceFile = ''/r/b.ts'', importPath = ''./foo/x.ts'', lineNumber = 2,
           resolvedPath = ''/r/foo/x.ts''\<rparr>,
          \<lparr>sourceFile = ''/r/c.ts'', importPath = ''./foo/x'', lineNumber = 1,
           resolvedPath = ''/r/foo/x.ts''\<rparr>] \<and>
   checkTargetDirectory example ''/r/foo'' = Inr ''/r/foo'' \<and>
   processDirectoryFileTry example None None ''/r/foo'' ''/r/gone.ts'' = Inl NotFound \<and>
   findDirectoryImportersRun (\<lambda>s. s) example ''/r/foo'' [''/r/b.ts'', ''/r/gone.ts'', ''/r/c.ts''] ''/r'' =
     (Inr \<lparr>target = ''/r/foo'', root = ''/r'', count = 3,
          groups = [\<lparr>importedFile = ''x.ts'',
                     importers = [\<lparr>sourceFile = ''/r/b.ts'', importPath = ''./foo/x.ts'',
                                   lineNumber = 2\<rparr>,
                                  \<lparr>sourceFile = ''/r/c.ts'', importPath = ''./foo/x'',
                                   lineNumber = 1\<rparr>]\<rparr>,
                    \<lparr>importedFile = ''y.ts'',
                     importers = [\<lparr>sourceFile = ''/r/b.ts'', importPath = ''./foo/y.ts'',
                                   lineNumber = 1\<rparr>]\<rparr>]\<rparr>,
      [WarnSkipping ''/r/gone.ts'']) \<and>
   findDirectoryImporters (\<lambda>s. s) example ''/r/foo'' [''/r/b.ts'', ''/r/c.ts''] ''/r'' =
     Inr \<lparr>target = ''/r/foo'', root = ''/r'', count = 3,
          groups = [\<lparr>importedFile = ''x.ts'',
                     importers = [\<lparr>sourceFile = ''/r/b.ts'', importPath = ''./foo/x.ts'',
                                   lineNumber = 2\<rparr>,
                                  \<lparr>sourceFile = ''/r/c.ts'', importPath = ''./foo/x'',
                                   lineNumber = 1\<rparr>]\<rparr>,
                    \<lparr>importedFile = ''y.ts'',
                     importers = [\<lparr>sourceFile = ''/r/b.ts'', importPath = ''./foo/y.ts'',
                                   lineNumber = 1\<rparr>]\<rparr>]\<rparr>"
proof -
  have t: "processFileTry example None None ''/r/foo/x.ts'' False ''/r/unreadable.ts''
      = Inl GenericError"
    by (simp add: process_defs parse_unreadable path_defs example_simps)
  have run: "findImportersRun example ''/r/foo/x.ts''
        [''/r/b.ts'', ''/r/unreadable.ts'', ''/r/c.ts''] ''/r'' =
     (Inr [\<lparr>sourceFile = ''/r/b.ts'', importPath = ''./foo/x.ts'', lineNumber = 2,
            resolvedPath = ''/r/foo/x.ts''\<rparr>,
           \<lparr>sourceFile = ''/r/c.ts'', importPath = ''./foo/x'', lineNumber = 1,
            resolvedPath = ''/r/foo/x.ts''\<rparr>],
      [ErrorProcessing ''/r/unreadable.ts'' GenericError])"
    by (simp add: findImportersRun_def example_config normalizeTarget_x processFile_x)
  have td: "processDirectoryFileTry example None None ''/r/foo'' ''/r/gone.ts'' = Inl NotFound"
    by (simp add: processDirectory_defs parse_gone path_defs example_simps)
  have rund: "findDirectoryImportersRun (\<lambda>s. s) example ''/r/foo''
        [''/r/b.ts'', ''/r/gone.ts'', ''/r/c.ts''] ''/r'' =
     (Inr \<lparr>target = ''/r/foo'', root = ''/r'', count = 3,
          groups = [\<lparr>importedFile = ''x.ts'',
                     importers = [\<lparr>sourceFile = ''/r/b.ts'', importPath = ''./foo/x.ts'',
                                   lineNumber = 2\<rparr>,
                                  \<lparr>sourceFile = ''/r/c.ts'', importPath = ''./foo/x'',
                                   lineNumber = 1\<rparr>]\<rparr>,
                    \<lparr>importedFile = ''y.ts'',
                     importers = [\<lparr>sourceFile = ''/r/b.ts'', importPath = ''./foo/y.ts'',
                                   lineNumber = 1\<rparr>]\<rparr>]\<rparr>,
      [WarnSkipping ''/r/gone.ts''])"
    by (simp add: findDirectoryImportersRun_def example_config
        checkTargetDirectory_foo processDirectoryFile_foo importGroupsOf_def sortGroups_def)
  have both: "normalizeTarget example ''/r/foo/x.ts'' = Inr (''/r/foo/x.ts'', False) \<and>
      (processFileTry example (loadedImportMap example ''/r'') (loadedTsConfig example ''/r'')
         ''/r/foo/x.ts'' False ''/r/unreadable.ts'' = Inl GenericError \<or>
       \<not> hitsTarget example ''/r/foo/x.ts'' False ''/r/unreadable.ts'' \<and>
         existsSync example ''/r/unreadable.ts'' = Inr False)"
    "checkTargetDirectory example ''/r/foo'' = Inr ''/r/foo'' \<and>
      (processDirectoryFileTry example (loadedImportMap example ''/r'')
         (loadedTsConfig example ''/r'') ''/r/foo'' ''/r/gone.ts'' = Inl NotFound \<or>
       \<not> startsWith (resolve example [''/r/gone.ts'']) ''/r/foo'' \<and>
         existsSync example ''/r/gone.ts'' = Inr False)"
    by (simp_all add: normalizeTarget_x checkTargetDirectory_foo example_config t td)
  from file_errors_are_contained [where env = example and targetPath = "''/r/foo/x.ts''"
      and normalizedTargetPath = "''/r/foo/x.ts''" and isTargetDirectory = False
      and rootPath = "''/r''" and filePath = "''/r/unreadable.ts''" and e = GenericError
      and before = "[''/r/b.ts'']" and after = "[''/r/c.ts'']" and collate = "\<lambda>s. s"] both(1)
  have a: "findImporters example ''/r/foo/x.ts'' [''/r/b.ts'', ''/r/c.ts''] ''/r'' =
      findImporters example ''/r/foo/x.ts'' [''/r/b.ts'', ''/r/unreadable.ts'', ''/r/c.ts''] ''/r''"
    by auto
  from file_errors_are_contained [where env = example and targetPath = "''/r/foo''"
      and normalizedTargetPath = "''/r/foo''" and isTargetDirectory = True
      and rootPath = "''/r''" and filePath = "''/r/gone.ts''" and e = NotFound
      and before = "[''/r/b.ts'']" and after = "[''/r/c.ts'']" and collate = "\<lambda>s. s"] both(2)
  have b: "findDirectoryImporters (\<lambda>s. s) example ''/r/foo'' [''/r/b.ts'', ''/r/c.ts''] ''/r'' =
      findDirectoryImporters (\<lambda>s. s) example ''/r/foo''
        [''/r/b.ts'', ''/r/gone.ts'', ''/r/c.ts''] ''/r''"
    by auto
  have a': "findImporters example ''/r/foo/x.ts'' [''/r/b.ts'', ''/r/c.ts''] ''/r'' =
      fst (findImportersRun example ''/r/foo/x.ts''
             [''/r/b.ts'', ''/r/unreadable.ts'', ''/r/c.ts''] ''/r'')"
    unfolding a by (simp only: findImporters_def)
  have b': "findDirectoryImporters (\<lambda>s. s) example ''/r/foo'' [''/r/b.ts'', ''/r/c.ts''] ''/r'' =
      fst (findDirectoryImportersRun (\<lambda>s. s) example ''/r/foo''
             [''/r/b.ts'', ''/r/gone.ts'', ''/r/c.ts''] ''/r'')"
    unfolding b by (simp only: findDirectoryImporters_def)
  show ?thesis
    unfolding a' b' run rund
    using t td normalizeTarget_x checkTargetDirectory_foo by simp
qed

section \<open>Groups: sorted, whatever the order of the files\<close>

subsection \<open>The map of groups\<close>

text \<open>The keys of the map are distinct, and the list under a key holds the matches
  with that key, in the order they were found.\<close>

lemma map_of_addImporter:
  "map_of (addImporter key importer m) =
     (map_of m)(key \<mapsto> (case map_of m key of None \<Rightarrow> [importer] | Some found \<Rightarrow> found @ [importer]))"
  by (induction m) (auto simp add: fun_eq_iff)

lemma keys_addImporter:
  "set (map fst (addImporter key importer m)) = insert key (set (map fst m))"
proof (induction m)
  case Nil
  show ?case by simp
next
  case (Cons entry m)
  then show ?case
    by (cases entry) (simp add: insert_commute)
qed

lemma distinct_addImporter:
  "distinct (map fst m) \<Longrightarrow> distinct (map fst (addImporter key importer m))"
proof (induction m)
  case Nil
  then show ?case by simp
next
  case (Cons entry m)
  then show ?case
    using keys_addImporter [of key importer m] by (cases entry) auto
qed

lemma importGroupsOf_snoc:
  "importGroupsOf (found @ [(key, importer)]) = addImporter key importer (importGroupsOf found)"
  by (simp add: importGroupsOf_def)

lemma distinct_importGroupsOf: "distinct (map fst (importGroupsOf found))"
proof (induction found rule: rev_induct)
  case Nil
  show ?case by (simp add: importGroupsOf_def)
next
  case (snoc entry found)
  then show ?case
    by (cases entry) (simp add: importGroupsOf_snoc distinct_addImporter)
qed

lemma map_of_importGroupsOf:
  "map_of (importGroupsOf found) key =
     (if key \<in> fst ` set found
      then Some (map snd (filter (\<lambda>entry. fst entry = key) found)) else None)"
proof (induction found rule: rev_induct)
  case Nil
  show ?case by (simp add: importGroupsOf_def)
next
  case (snoc entry found)
  obtain k v where entry: "entry = (k, v)" by (cases entry)
  show ?case
    unfolding entry importGroupsOf_snoc map_of_addImporter
    using snoc.IH by (auto simp add: image_iff filter_empty_conv)
qed

subsection \<open>Sorting\<close>

lemma map_insort_key:
  "(\<And>x. f (h x) = f x) \<Longrightarrow> map h (insort_key f x xs) = insort_key f (h x) (map h xs)"
  by (induction xs) simp_all

lemma map_sort_key:
  "(\<And>x. f (h x) = f x) \<Longrightarrow> map h (sort_key f xs) = sort_key f (map h xs)"
  by (induction xs) (simp_all add: map_insort_key)

lemma sortGroups_normal:
  "sortGroups collate entries =
     sort_key (\<lambda>g. collate (importedFile g))
       (map (\<lambda>(key, found). \<lparr>importedFile = key,
                               importers = sort_key (\<lambda>i. collate (sourceFile i)) found\<rparr>)
          entries)"
  unfolding sortGroups_def
  by (subst map_sort_key) (simp_all add: case_prod_unfold comp_def)

lemma sorted_sortGroups:
  "sorted (map (\<lambda>g. collate (importedFile g)) (sortGroups collate entries))"
  unfolding sortGroups_normal by (rule sorted_sort_key)

lemma importers_sortGroups:
  assumes "g \<in> set (sortGroups collate entries)"
  shows "sorted (map (\<lambda>i. collate (sourceFile i)) (importers g))"
  using assms unfolding sortGroups_normal by (auto simp add: sorted_sort_key)

text \<open>The keys of the sorted groups are the keys of the map.\<close>

lemma keys_importGroupsOf: "fst ` set (importGroupsOf found) = fst ` set found"
proof -
  have "fst ` set (importGroupsOf found) = dom (map_of (importGroupsOf found))"
    by (simp only: dom_map_of_conv_image_fst)
  also have "\<dots> = fst ` set found"
    by (auto simp add: dom_def map_of_importGroupsOf)
  finally show ?thesis .
qed

lemma keys_sortGroups: "importedFile ` set (sortGroups collate entries) = fst ` set entries"
  unfolding sortGroups_normal by (force simp add: image_iff)

text \<open>Two maps with the same keys whose lists agree once sorted give the same sorted
  groups, provided the collation tells the keys apart.\<close>

lemma sortGroups_cong:
  fixes collate :: "string \<Rightarrow> 'k::linorder"
  assumes "distinct (map fst entries)" and "distinct (map fst entries')"
    and "\<And>key. map_option (sort_key (\<lambda>i. collate (sourceFile i))) (map_of entries key) =
                map_option (sort_key (\<lambda>i. collate (sourceFile i))) (map_of entries' key)"
    and "inj_on collate (fst ` set entries)"
  shows "sortGroups collate entries = sortGroups collate entries'"
proof -
  let ?s = "sort_key (\<lambda>i. collate (sourceFile i))"
  let ?n = "map (\<lambda>(key, found). (key, ?s found))"
  let ?mk = "\<lambda>(key, found). \<lparr>importedFile = key, importers = found\<rparr>"
  let ?ck = "\<lambda>g. collate (importedFile g)"
  have keys: "map fst (?n xs) = map fst xs" for xs :: "(string \<times> Importer list) list"
    by (induction xs) auto
  have d: "distinct (map fst (?n entries))" "distinct (map fst (?n entries'))"
    using assms(1,2) by (simp_all only: keys)
  have "map_of (?n entries) = map_of (?n entries')"
    using assms(3) by (simp add: map_of_map fun_eq_iff)
  then have sets: "set (?n entries) = set (?n entries')"
    using d by (simp only: map_of_inject_set)
  have dn: "distinct (?n entries)" "distinct (?n entries')"
    using d by (simp_all only: distinct_map)
  have m: "mset (?n entries) = mset (?n entries')"
    using sets set_eq_iff_mset_eq_distinct [OF dn] by blast
  have key_in: "k \<in> fst ` set entries" if "(k, vs) \<in> set (?n entries)" for k vs
  proof -
    from that have "fst (k, vs) \<in> set (map fst (?n entries))"
      unfolding set_map by (rule imageI)
    then show ?thesis by (simp only: keys set_map fst_conv)
  qed
  have inj: "inj_on ?ck (set (map ?mk (?n entries)))"
  proof (rule inj_onI)
    fix g g'
    assume g: "g \<in> set (map ?mk (?n entries))" and g': "g' \<in> set (map ?mk (?n entries))"
      and eq: "?ck g = ?ck g'"
    from g obtain p where p: "p \<in> set (?n entries)" "g = ?mk p"
      unfolding set_map by (elim imageE) blast
    from g' obtain p' where p': "p' \<in> set (?n entries)" "g' = ?mk p'"
      unfolding set_map by (elim imageE) blast
    obtain k vs where kv: "p = (k, vs)" by (cases p)
    obtain k' vs' where kv': "p' = (k', vs')" by (cases p')
    note 1 = p [unfolded kv] and 2 = p' [unfolded kv']
    from eq 1(2) 2(2) have ck: "collate k = collate k'" by simp
    from assms(4) ck key_in [OF 1(1)] key_in [OF 2(1)] have "k = k'"
      by (rule inj_onD)
    have "map_of (?n entries) k = Some vs"
      using d(1) 1(1) by (rule map_of_is_SomeI)
    moreover have "map_of (?n entries) k = Some vs'"
      using d(1) 2(1) unfolding \<open>k = k'\<close> by (rule map_of_is_SomeI)
    ultimately have "vs = vs'" by simp
    with \<open>k = k'\<close> 1(2) 2(2) show "g = g'" by simp
  qed
  have "mset (map ?mk (?n entries)) = image_mset ?mk (mset (?n entries))"
    by (simp only: mset_map)
  also have "\<dots> = image_mset ?mk (mset (?n entries'))"
    by (simp only: m)
  also have "\<dots> = mset (sort_key ?ck (map ?mk (?n entries')))"
    by (simp only: mset_map mset_sort)
  finally have mm: "mset (map ?mk (?n entries)) = mset (sort_key ?ck (map ?mk (?n entries')))" .
  have "sort_key ?ck (map ?mk (?n entries)) = sort_key ?ck (map ?mk (?n entries'))"
    using mm inj by (rule sort_key_inj_key_eq) (rule sorted_sort_key)
  moreover have "map ?mk (?n xs) =
      map (\<lambda>(key, found). \<lparr>importedFile = key, importers = ?s found\<rparr>) xs"
    for xs :: "(string \<times> Importer list) list"
    by (induction xs) auto
  ultimately show ?thesis
    by (simp only: sortGroups_normal)
qed

subsection \<open>The matches of a list of files\<close>

lemma checkDirectoryImports_sourceFile:
  "entry \<in> set (fst (checkDirectoryImports env importMap tsConfig normalizedTargetPath
                        filePath stmts)) \<Longrightarrow> sourceFile (snd entry) = filePath"
proof (induction stmts)
  case Nil
  then show ?case by simp
next
  case (Cons imp stmts)
  then show ?case
    by (auto simp add: Let_def split: prod.splits option.splits if_splits)
qed

lemma processDirectoryFile_sourceFile:
  assumes "entry \<in> set (fst (processDirectoryFile env importMap tsConfig normalizedTargetPath
                                 filePath))"
  shows "sourceFile (snd entry) = filePath"
proof (cases "processDirectoryFileTry env importMap tsConfig normalizedTargetPath filePath")
  case (Inl e)
  then show ?thesis
    using assms by (cases e) (simp_all add: processDirectoryFile_def)
next
  case (Inr outcome)
  then have "entry \<in> set (fst outcome)"
    using assms by (simp add: processDirectoryFile_def)
  then show ?thesis
    using Inr
    by (auto simp add: processDirectoryFileTry_def checkDirectoryImports_sourceFile
        split: sum.splits if_splits)
qed

lemma processDirectoryFiles_concat:
  "fst (processDirectoryFiles env importMap tsConfig normalizedTargetPath files) =
     concat (map (\<lambda>filePath. fst (processDirectoryFile env importMap tsConfig
                                      normalizedTargetPath filePath)) files)"
  by (induction files) (simp_all add: Let_def case_prod_unfold)

subsection \<open>Sorting what a permuted list of files yields\<close>

lemma mset_concat_map_cong:
  "mset files' = mset files \<Longrightarrow> mset (concat (map g files')) = mset (concat (map g files))"
proof -
  have "mset (concat (map g xs)) = sum_mset (image_mset (\<lambda>x. mset (g x)) (mset xs))" for xs
    by (induction xs) simp_all
  then show "mset files' = mset files \<Longrightarrow> ?thesis" by simp
qed

lemma filter_concat_tagged:
  assumes "\<And>f x. x \<in> set (g f) \<Longrightarrow> src x = f"
  shows "filter (\<lambda>x. src x = f0) (concat (map g files)) =
         concat (map g (filter (\<lambda>f. f0 = f) files))"
proof (induction files)
  case Nil
  show ?case by simp
next
  case (Cons f files)
  have "filter (\<lambda>x. src x = f0) (g f) = (if f0 = f then g f else [])"
    using assms [of _ f] by (auto simp add: filter_empty_conv filter_id_conv)
  then show ?case using Cons.IH by simp
qed

text \<open>Every match of a file carries the path of that file.  A stable sort by the path
  therefore orders what a list of files yields in the same way for every permutation
  of the list, when the collation tells the paths of the list apart.\<close>

lemma sort_key_concat_perm:
  fixes c :: "'f \<Rightarrow> 'k::linorder"
  assumes tag: "\<And>f x. x \<in> set (g f) \<Longrightarrow> src x = f"
    and inj: "inj_on c (set files)" and perm: "mset files' = mset files"
  shows "sort_key (\<lambda>x. c (src x)) (concat (map g files')) =
         sort_key (\<lambda>x. c (src x)) (concat (map g files))"
proof (rule properties_for_sort_key)
  let ?key = "\<lambda>x. c (src x)"
  let ?ys = "sort_key ?key (concat (map g files))"
  show "mset ?ys = mset (concat (map g files'))"
    using mset_concat_map_cong [OF perm, of g] by simp
  show "sorted (map ?key ?ys)"
    by (rule sorted_sort_key)
  fix k
  assume "k \<in> set ?ys"
  have src_in: "src x \<in> set files" if "x \<in> set (concat (map g files))" for x
    using that tag by auto
  have src_in': "src x \<in> set files" if "x \<in> set (concat (map g files'))" for x
    using that tag mset_eq_setD [OF perm] by auto
  from \<open>k \<in> set ?ys\<close> have k_in: "src k \<in> set files"
    using src_in by simp
  have pred: "?key x = ?key k \<longleftrightarrow> src x = src k" if "src x \<in> set files" for x
    using inj_on_eq_iff [OF inj that k_in] .
  have len: "length (filter (\<lambda>f. src k = f) files') = length (filter (\<lambda>f. src k = f) files)"
  proof (rule mset_eq_length)
    show "mset (filter (\<lambda>f. src k = f) files') = mset (filter (\<lambda>f. src k = f) files)"
      by (simp only: mset_filter perm)
  qed
  have "filter (\<lambda>f. src k = f) files' =
      replicate (length (filter (\<lambda>f. src k = f) files')) (src k)"
    by (rule replicate_length_filter [symmetric])
  also have "\<dots> = replicate (length (filter (\<lambda>f. src k = f) files)) (src k)"
    by (simp only: len)
  also have "\<dots> = filter (\<lambda>f. src k = f) files"
    by (rule replicate_length_filter)
  finally have same: "filter (\<lambda>f. src k = f) files' = filter (\<lambda>f. src k = f) files" .
  have "filter (\<lambda>x. ?key k = ?key x) ?ys = filter (\<lambda>x. ?key x = ?key k) ?ys"
    by (simp add: eq_commute)
  also have "\<dots> = filter (\<lambda>x. ?key x = ?key k) (concat (map g files))"
    by (rule sort_key_stable)
  also have "\<dots> = filter (\<lambda>x. src x = src k) (concat (map g files))"
    by (rule filter_cong [OF refl]) (rule pred, rule src_in)
  also have "\<dots> = concat (map g (filter (\<lambda>f. src k = f) files))"
    using tag by (rule filter_concat_tagged)
  also have "\<dots> = concat (map g (filter (\<lambda>f. src k = f) files'))"
    by (simp only: same)
  also have "\<dots> = filter (\<lambda>x. src x = src k) (concat (map g files'))"
    using tag by (rule filter_concat_tagged [symmetric])
  also have "\<dots> = filter (\<lambda>x. ?key x = ?key k) (concat (map g files'))"
    by (rule filter_cong [OF refl, symmetric]) (rule pred, rule src_in')
  also have "\<dots> = filter (\<lambda>x. ?key k = ?key x) (concat (map g files'))"
    by (simp add: eq_commute)
  finally show "filter (\<lambda>x. ?key k = ?key x) ?ys =
      filter (\<lambda>x. ?key k = ?key x) (concat (map g files'))" .
qed

lemma sortGroups_perm:
  fixes collate :: "string \<Rightarrow> 'k::linorder"
  assumes inj_files: "inj_on collate (set files)"
    and inj_keys: "inj_on collate
           (fst ` set (fst (processDirectoryFiles env importMap tsConfig normalizedTargetPath
                              files)))"
    and perm: "mset files' = mset files"
  shows "sortGroups collate (importGroupsOf
           (fst (processDirectoryFiles env importMap tsConfig normalizedTargetPath files'))) =
         sortGroups collate (importGroupsOf
           (fst (processDirectoryFiles env importMap tsConfig normalizedTargetPath files)))"
proof (rule sortGroups_cong)
  let ?ent = "\<lambda>filePath. fst (processDirectoryFile env importMap tsConfig normalizedTargetPath
                                 filePath)"
  let ?E = "\<lambda>files. fst (processDirectoryFiles env importMap tsConfig normalizedTargetPath files)"
  let ?s = "sort_key (\<lambda>i. collate (sourceFile i))"
  have E: "?E xs = concat (map ?ent xs)" for xs
    by (rule processDirectoryFiles_concat)
  have sets: "set (?E files') = set (?E files)"
    using mset_eq_setD [OF perm] by (simp add: E)
  show "distinct (map fst (importGroupsOf (?E files')))"
    and "distinct (map fst (importGroupsOf (?E files)))"
    by (rule distinct_importGroupsOf)+
  show "inj_on collate (fst ` set (importGroupsOf (?E files')))"
    using inj_keys by (simp only: keys_importGroupsOf sets)
  fix key
  let ?g = "\<lambda>filePath. map snd (filter (\<lambda>entry. fst entry = key) (?ent filePath))"
  have sel: "map snd (filter (\<lambda>entry. fst entry = key) (?E xs)) = concat (map ?g xs)" for xs
    by (simp add: E filter_concat map_concat comp_def)
  have tag: "sourceFile x = f" if "x \<in> set (?g f)" for f x
    using that processDirectoryFile_sourceFile [of _ env importMap tsConfig normalizedTargetPath f]
    by auto
  have "?s (concat (map ?g files')) = ?s (concat (map ?g files))"
    using tag inj_files perm by (rule sort_key_concat_perm)
  then show "map_option ?s (map_of (importGroupsOf (?E files')) key) =
      map_option ?s (map_of (importGroupsOf (?E files)) key)"
    by (simp add: map_of_importGroupsOf sets sel)
qed

text \<open>
  Claim C9, as amended.  When \<open>findDirectoryImporters\<close> returns, its groups are sorted by
  the path of the referenced file and the importers of every group are sorted by the
  path of the source file, in the order of \<open>localeCompare\<close>.  When \<open>localeCompare\<close> tells
  the files of the list apart, and the referenced paths of the groups as well, every
  permutation of the list of files gives the same result.
\<close>

theorem directory_groups_sorted_for_any_order:
  fixes collate :: "string \<Rightarrow> 'k::linorder"
  assumes "findDirectoryImporters collate env targetPath files rootPath = Inr result"
  shows "sorted (map (\<lambda>g. collate (importedFile g)) (groups result)) \<and>
         (\<forall>g \<in> set (groups result).
            sorted (map (\<lambda>i. collate (sourceFile i)) (importers g))) \<and>
         (inj_on collate (set files) \<and>
          inj_on collate (importedFile ` set (groups result)) \<longrightarrow>
            (\<forall>files'. mset files' = mset files \<longrightarrow>
               findDirectoryImporters collate env targetPath files' rootPath = Inr result))"
proof -
  let ?im = "loadedImportMap env rootPath" and ?ts = "loadedTsConfig env rootPath"
  obtain normalizedTargetPath where
    t: "checkTargetDirectory env targetPath = Inr normalizedTargetPath"
    using assms
    by (auto simp add: findDirectoryImporters_def findDirectoryImportersRun_def Let_def
        split: sum.splits)
  let ?E = "\<lambda>files. fst (processDirectoryFiles env ?im ?ts normalizedTargetPath files)"
  let ?G = "\<lambda>files. sortGroups collate (importGroupsOf (?E files))"
  have run: "findDirectoryImporters collate env targetPath xs rootPath =
      Inr \<lparr>target = targetPath, root = rootPath,
           count = sum_list (map (\<lambda>g. length (importers g)) (?G xs)), groups = ?G xs\<rparr>" for xs
    by (simp add: findDirectoryImporters_def findDirectoryImportersRun_def Let_def t
        split: prod.splits)
  have g: "groups result = ?G files"
    using assms unfolding run by auto
  have keys: "importedFile ` set (groups result) = fst ` set (?E files)"
    unfolding g by (simp only: keys_sortGroups keys_importGroupsOf)
  have "sorted (map (\<lambda>g. collate (importedFile g)) (groups result))"
    unfolding g by (rule sorted_sortGroups)
  moreover have "\<forall>g \<in> set (groups result).
      sorted (map (\<lambda>i. collate (sourceFile i)) (importers g))"
    unfolding g using importers_sortGroups by blast
  moreover have "findDirectoryImporters collate env targetPath files' rootPath = Inr result"
    if "inj_on collate (set files)" "inj_on collate (importedFile ` set (groups result))"
      "mset files' = mset files" for files'
  proof -
    have "inj_on collate (fst ` set (?E files))"
      using that(2) by (simp only: keys)
    then have "?G files' = ?G files"
      using that(1,3) by (intro sortGroups_perm)
    then show ?thesis
      using assms unfolding run by simp
  qed
  ultimately show ?thesis by blast
qed

text \<open>An instance: \<open>/r/c.ts\<close> and \<open>/r/b.ts\<close> of the first tree in both orders.  The
  collation tells the two files and the two referenced paths apart.\<close>

theorem directory_groups_sorted_for_any_order_witness:
  "findDirectoryImporters exampleCollation example ''/r/foo'' [''/r/c.ts'', ''/r/b.ts''] ''/r'' =
     Inr \<lparr>target = ''/r/foo'', root = ''/r'', count = 3,
          groups = [\<lparr>importedFile = ''x.ts'',
                     importers = [\<lparr>sourceFile = ''/r/b.ts'', importPath = ''./foo/x.ts'',
                                   lineNumber = 2\<rparr>,
                                  \<lparr>sourceFile = ''/r/c.ts'', importPath = ''./foo/x'',
                                   lineNumber = 1\<rparr>]\<rparr>,
                    \<lparr>importedFile = ''y.ts'',
                     importers = [\<lparr>sourceFile = ''/r/b.ts'', importPath = ''./foo/y.ts'',
                                   lineNumber = 1\<rparr>]\<rparr>]\<rparr> \<and>
   exampleCollation ''/r/c.ts'' \<noteq> exampleCollation ''/r/b.ts'' \<and>
   exampleCollation ''x.ts'' \<noteq> exampleCollation ''y.ts'' \<and>
   mset [''/r/b.ts'', ''/r/c.ts''] = mset [''/r/c.ts'', ''/r/b.ts''] \<and>
   findDirectoryImporters exampleCollation example ''/r/foo'' [''/r/b.ts'', ''/r/c.ts''] ''/r'' =
     Inr \<lparr>target = ''/r/foo'', root = ''/r'', count = 3,
          groups = [\<lparr>importedFile = ''x.ts'',
                     importers = [\<lparr>sourceFile = ''/r/b.ts'', importPath = ''./foo/x.ts'',
                                   lineNumber = 2\<rparr>,
                                  \<lparr>sourceFile = ''/r/c.ts'', importPath = ''./foo/x'',
                                   lineNumber = 1\<rparr>]\<rparr>,
                    \<lparr>importedFile = ''y.ts'',
                     importers = [\<lparr>sourceFile = ''/r/b.ts'', importPath = ''./foo/y.ts'',
                                   lineNumber = 1\<rparr>]\<rparr>]\<rparr> \<and>
   sorted [exampleCollation ''x.ts'', exampleCollation ''y.ts''] \<and>
   sorted [exampleCollation ''/r/b.ts'', exampleCollation ''/r/c.ts'']"
proof -
  let ?R = "\<lparr>target = ''/r/foo'', root = ''/r'', count = 3,
          groups = [\<lparr>importedFile = ''x.ts'',
                     importers = [\<lparr>sourceFile = ''/r/b.ts'', importPath = ''./foo/x.ts'',
                                   lineNumber = 2\<rparr>,
                                  \<lparr>sourceFile = ''/r/c.ts'', importPath = ''./foo/x'',
                                   lineNumber = 1\<rparr>]\<rparr>,
                    \<lparr>importedFile = ''y.ts'',
                     importers = [\<lparr>sourceFile = ''/r/b.ts'', importPath = ''./foo/y.ts'',
                                   lineNumber = 1\<rparr>]\<rparr>]\<rparr>"
  have run: "findDirectoryImporters exampleCollation example ''/r/foo''
      [''/r/c.ts'', ''/r/b.ts''] ''/r'' = Inr ?R"
    by (simp add: findDirectoryImporters_def findDirectoryImportersRun_def example_config
        checkTargetDirectory_foo processDirectoryFile_foo importGroupsOf_def sortGroups_def
        exampleCollation_def)
  have perm: "mset [''/r/b.ts'', ''/r/c.ts''] = mset [''/r/c.ts'', ''/r/b.ts'']"
    by simp
  have apart: "exampleCollation ''/r/c.ts'' \<noteq> exampleCollation ''/r/b.ts''"
    "exampleCollation ''x.ts'' \<noteq> exampleCollation ''y.ts''"
    by (simp_all add: exampleCollation_def)
  have inj: "inj_on exampleCollation (set [''/r/c.ts'', ''/r/b.ts''])"
    "inj_on exampleCollation (importedFile ` set (groups ?R))"
    using apart by simp_all
  note facts = directory_groups_sorted_for_any_order [OF run]
  from facts have s1: "sorted (map (\<lambda>g. exampleCollation (importedFile g)) (groups ?R))"
    by blast
  from facts have s2: "\<forall>g \<in> set (groups ?R).
      sorted (map (\<lambda>i. exampleCollation (sourceFile i)) (importers g))"
    by blast
  from facts inj perm
  have other: "findDirectoryImporters exampleCollation example ''/r/foo''
      [''/r/b.ts'', ''/r/c.ts''] ''/r'' = Inr ?R"
    by blast
  from s1 have a: "sorted [exampleCollation ''x.ts'', exampleCollation ''y.ts'']"
    by simp
  from s2 have b: "sorted [exampleCollation ''/r/b.ts'', exampleCollation ''/r/c.ts'']"
    by simp
  show ?thesis
    using run apart perm other a b by (intro conjI)
qed

subsection \<open>Paths that compare equal\<close>

lemma controlExample_statSync:
  "statSync controlExample path =
     (case map_of controlTree path of
        None \<Rightarrow> Inl NotFound
      | Some Directory \<Rightarrow> Inr True
      | Some Forbidden \<Rightarrow> Inl PermissionDenied
      | Some _ \<Rightarrow> Inr False)"
  by (simp add: controlExample_def runtimeOf_def)

lemma controlExample_readTextFile:
  "readTextFile controlExample path =
     (case map_of controlTree path of
        Some (File content) \<Rightarrow> Inr content
      | Some Unreadable \<Rightarrow> Inl PermissionDenied
      | Some Forbidden \<Rightarrow> Inl PermissionDenied
      | Some Directory \<Rightarrow> Inl GenericError
      | _ \<Rightarrow> Inl NotFound)"
  by (simp add: controlExample_def runtimeOf_def)

lemma controlExample_cwd: "cwd controlExample = ''/w''"
  by (simp add: controlExample_def runtimeOf_def)

lemmas controlExample_simps = controlExample_cwd controlExample_statSync
  controlExample_readTextFile controlTree_def existsSync_def

lemma controlExample_config:
  "loadedImportMap controlExample ''/r'' = None" "loadedTsConfig controlExample ''/r'' = None"
  "loadWarnings controlExample ''/r'' = []"
  by (simp_all add: loadedImportMap_def loadedTsConfig_def loadWarnings_def loadImportMap_def
      loadTsConfig_def path_defs controlExample_simps)

lemma controlExample_target:
  "checkTargetDirectory controlExample ''/r/foo'' = Inr ''/r/foo''"
  by (simp add: checkTargetDirectory_def path_defs controlExample_simps)

lemma controlExample_parse:
  "parseImports controlExample ''/r/p.ts'' =
     Inr [\<lparr>type = es6, module = ''./foo/a.ts'', isDynamic = False, stmtLineNumber = 1\<rparr>]"
  "parseImports controlExample ''/r/q.ts'' =
     Inr [\<lparr>type = es6, module = ''./foo/a'' @ [CHR 0x7F] @ ''.ts'', isDynamic = False,
           stmtLineNumber = 1\<rparr>]"
  by (simp_all add: parseImports_def parseImportsTry_def controlExample_simps rx_defs)

lemma controlExample_resolve:
  "resolveImportPathLog controlExample ''/r/p.ts'' ''./foo/a.ts'' None None =
     (Some ''/r/foo/a.ts'', [])"
  "resolveImportPathLog controlExample ''/r/q.ts'' (''./foo/a'' @ [CHR 0x7F] @ ''.ts'') None None =
     (Some (''/r/foo/a'' @ [CHR 0x7F] @ ''.ts''), [])"
  by (simp_all add: resolve_defs path_defs controlExample_simps)

lemma controlExample_processDirectoryFile:
  "processDirectoryFile controlExample None None ''/r/foo'' ''/r/p.ts'' =
     ([(''a.ts'',
        \<lparr>sourceFile = ''/r/p.ts'', importPath = ''./foo/a.ts'', lineNumber = 1\<rparr>)], [])"
  "processDirectoryFile controlExample None None ''/r/foo'' ''/r/q.ts'' =
     ([(''a'' @ [CHR 0x7F] @ ''.ts'',
        \<lparr>sourceFile = ''/r/q.ts'', importPath = ''./foo/a'' @ [CHR 0x7F] @ ''.ts'',
         lineNumber = 1\<rparr>)], [])"
  using controlExample_parse controlExample_resolve
  by (simp_all add: processDirectory_defs path_defs controlExample_simps)

text \<open>
  Claim C9 as stated fails.  The two referenced paths \<open>a.ts\<close> and \<open>a\<close>, U+007F, \<open>.ts\<close> compare
  equal, the stable sort leaves their groups in the order in which the list of files
  produced them, and the two orders of the list \<open>/r/p.ts\<close>, \<open>/r/q.ts\<close> give different
  results.
\<close>

theorem equal_keys_keep_input_order_counterexample:
  "exampleCollation ''a.ts'' = exampleCollation (''a'' @ [CHR 0x7F] @ ''.ts'') \<and>
   mset [''/r/q.ts'', ''/r/p.ts''] = mset [''/r/p.ts'', ''/r/q.ts''] \<and>
   findDirectoryImporters exampleCollation controlExample ''/r/foo''
       [''/r/p.ts'', ''/r/q.ts''] ''/r'' =
     Inr \<lparr>target = ''/r/foo'', root = ''/r'', count = 2,
          groups = [\<lparr>importedFile = ''a.ts'',
                     importers = [\<lparr>sourceFile = ''/r/p.ts'', importPath = ''./foo/a.ts'',
                                   lineNumber = 1\<rparr>]\<rparr>,
                    \<lparr>importedFile = ''a'' @ [CHR 0x7F] @ ''.ts'',
                     importers = [\<lparr>sourceFile = ''/r/q.ts'',
                                   importPath = ''./foo/a'' @ [CHR 0x7F] @ ''.ts'',
                                   lineNumber = 1\<rparr>]\<rparr>]\<rparr> \<and>
   findDirectoryImporters exampleCollation controlExample ''/r/foo''
       [''/r/q.ts'', ''/r/p.ts''] ''/r'' =
     Inr \<lparr>target = ''/r/foo'', root = ''/r'', count = 2,
          groups = [\<lparr>importedFile = ''a'' @ [CHR 0x7F] @ ''.ts'',
                     importers = [\<lparr>sourceFile = ''/r/q.ts'',
                                   importPath = ''./foo/a'' @ [CHR 0x7F] @ ''.ts'',
                                   lineNumber = 1\<rparr>]\<rparr>,
                    \<lparr>importedFile = ''a.ts'',
                     importers = [\<lparr>sourceFile = ''/r/p.ts'', importPath = ''./foo/a.ts'',
                                   lineNumber = 1\<rparr>]\<rparr>]\<rparr> \<and>
   findDirectoryImporters exampleCollation controlExample ''/r/foo''
       [''/r/q.ts'', ''/r/p.ts''] ''/r'' \<noteq>
   findDirectoryImporters exampleCollation controlExample ''/r/foo''
       [''/r/p.ts'', ''/r/q.ts''] ''/r''"
proof -
  have pq: "findDirectoryImporters exampleCollation controlExample ''/r/foo''
       [''/r/p.ts'', ''/r/q.ts''] ''/r'' =
     Inr \<lparr>target = ''/r/foo'', root = ''/r'', count = 2,
          groups = [\<lparr>importedFile = ''a.ts'',
                     importers = [\<lparr>sourceFile = ''/r/p.ts'', importPath = ''./foo/a.ts'',
                                   lineNumber = 1\<rparr>]\<rparr>,
                    \<lparr>importedFile = ''a'' @ [CHR 0x7F] @ ''.ts'',
                     importers = [\<lparr>sourceFile = ''/r/q.ts'',
                                   importPath = ''./foo/a'' @ [CHR 0x7F] @ ''.ts'',
                                   lineNumber = 1\<rparr>]\<rparr>]\<rparr>"
    by (simp add: findDirectoryImporters_def findDirectoryImportersRun_def
        controlExample_config controlExample_target controlExample_processDirectoryFile
        importGroupsOf_def sortGroups_def exampleCollation_def)
  have qp: "findDirectoryImporters exampleCollation controlExample ''/r/foo''
       [''/r/q.ts'', ''/r/p.ts''] ''/r'' =
     Inr \<lparr>target = ''/r/foo'', root = ''/r'', count = 2,
          groups = [\<lparr>importedFile = ''a'' @ [CHR 0x7F] @ ''.ts'',
                     importers = [\<lparr>sourceFile = ''/r/q.ts'',
                                   importPath = ''./foo/a'' @ [CHR 0x7F] @ ''.ts'',
                                   lineNumber = 1\<rparr>]\<rparr>,
                    \<lparr>importedFile = ''a.ts'',
                     importers = [\<lparr>sourceFile = ''/r/p.ts'', importPath = ''./foo/a.ts'',
                                   lineNumber = 1\<rparr>]\<rparr>]\<rparr>"
    by (simp add: findDirectoryImporters_def findDirectoryImportersRun_def
        controlExample_config controlExample_target controlExample_processDirectoryFile
        importGroupsOf_def sortGroups_def exampleCollation_def)
  have differ: "findDirectoryImporters exampleCollation controlExample ''/r/foo''
       [''/r/q.ts'', ''/r/p.ts''] ''/r'' \<noteq>
     findDirectoryImporters exampleCollation controlExample ''/r/foo''
       [''/r/p.ts'', ''/r/q.ts''] ''/r''"
    unfolding pq qp by simp
  have equal: "exampleCollation ''a.ts'' = exampleCollation (''a'' @ [CHR 0x7F] @ ''.ts'')"
    by (simp add: exampleCollation_def)
  have perm: "mset [''/r/q.ts'', ''/r/p.ts''] = mset [''/r/p.ts'', ''/r/q.ts'']"
    by simp
  show ?thesis
    using equal perm pq qp differ by (intro conjI)
qed

end
